theory Spec2Isabelle
  imports Complex_Main "HOL-Library.Multiset"
begin

section \<open>Values, errors, tensors\<close>

text \<open>
  The development embeds \<^verbatim>\<open>verl/workers/actor/dp_actor.py\<close> (class
  \<^verbatim>\<open>DataParallelPPOActor\<close>).  Exceptions are values of \<open>error\<close>; a computation
  that can raise returns \<open>error + 'a\<close> with \<open>Inl\<close> the exception.

  Tensors are idealised: a two-dimensional tensor with a leading example dimension is a
  list of rows, token ids and masks are embedded in the reals, and floating-point numbers
  are reals (autocast and rounding are not represented).  Values that PyTorch computes as
  \<open>inf\<close> or \<open>nan\<close> where the claims depend on them (a gradient norm, a loss divided
  by a zero count) are values of \<open>fl\<close>.
\<close>

datatype error =
  AssertionError | KeyError | NotImplementedError | RuntimeError | IndexError | AttributeError
  | ZeroDivisionError

datatype fl = Finite real | PosInf | NegInf | NaN

type_synonym tensor = "real list list"

record tensordict =
  batch_size :: nat
  entries :: "(string \<times> tensor) list"

definition getitem :: "tensordict \<Rightarrow> string \<Rightarrow> error + tensor" where
  "getitem td k = (case map_of (entries td) k of None \<Rightarrow> Inl KeyError | Some t \<Rightarrow> Inr t)"

definition contains :: "tensordict \<Rightarrow> string \<Rightarrow> bool" where
  "contains td k = (map_of (entries td) k \<noteq> None)"

text \<open>\<^verbatim>\<open>t.size(-1)\<close> of a two-dimensional tensor given as rows.\<close>

definition ncols :: "'a list list \<Rightarrow> nat" where
  "ncols t = (case t of [] \<Rightarrow> 0 | r # _ \<Rightarrow> length r)"

subsection \<open>Python slices\<close>

text \<open>
  \<^verbatim>\<open>xs[a:b]\<close> and \<^verbatim>\<open>xs[a:]\<close>: a negative bound counts from the end, and
  every bound is clamped into \<open>0..len\<close>.
\<close>

definition slice_bound :: "int \<Rightarrow> int \<Rightarrow> nat" where
  "slice_bound n i = nat (if i < 0 then max (i + n) 0 else min i n)"

definition py_slice :: "int \<Rightarrow> int \<Rightarrow> 'a list \<Rightarrow> 'a list" where
  "py_slice a b xs =
     (let lo = slice_bound (int (length xs)) a; hi = slice_bound (int (length xs)) b
      in take (hi - lo) (drop lo xs))"

definition py_slice_from :: "int \<Rightarrow> 'a list \<Rightarrow> 'a list" where
  "py_slice_from a xs = drop (slice_bound (int (length xs)) a) xs"

text \<open>\<^verbatim>\<open>t[:, -response_length - 1:-1]\<close>, the response span of lines 131, 132, 142.\<close>

definition response_slice :: "nat \<Rightarrow> 'a list list \<Rightarrow> 'a list list" where
  "response_slice response_length t =
     map (py_slice (- int response_length - 1) (- 1)) t"

subsection \<open>Packing (flash_attn.bert_padding) and roll\<close>

text \<open>
  \<^verbatim>\<open>unpad_input\<close>, \<^verbatim>\<open>index_first_axis\<close> and \<^verbatim>\<open>pad_input\<close> are the
  library's: \<open>indices\<close> are the positions of the non-zero entries of the flattened mask,
  \<open>pad_input\<close> writes the values at \<open>indices\<close> into \<open>batch * seqlen\<close> zeros and
  reshapes to \<open>(batch, seqlen)\<close>.
\<close>

definition nonzero :: "real list \<Rightarrow> nat list" where
  "nonzero xs = filter (\<lambda>i. xs ! i \<noteq> 0) [0..<length xs]"

definition index_first_axis :: "'a list \<Rightarrow> nat list \<Rightarrow> error + 'a list" where
  "index_first_axis xs indices =
     (if list_all (\<lambda>i. i < length xs) indices then Inr (map (\<lambda>i. xs ! i) indices)
      else Inl IndexError)"

definition unpad_input :: "tensor \<Rightarrow> tensor \<Rightarrow> error + (real list \<times> nat list)" where
  "unpad_input hidden_states attention_mask =
     (let indices = nonzero (concat attention_mask)
      in case index_first_axis (concat hidden_states) indices of
           Inl e \<Rightarrow> Inl e
         | Inr v \<Rightarrow> Inr (v, indices))"

definition unflatten :: "nat \<Rightarrow> nat \<Rightarrow> 'a list \<Rightarrow> 'a list list" where
  "unflatten batch seqlen flat = map (\<lambda>b. take seqlen (drop (b * seqlen) flat)) [0..<batch]"

definition index_put :: "'a list \<Rightarrow> nat list \<Rightarrow> 'a list \<Rightarrow> 'a list" where
  "index_put out indices vals = fold (\<lambda>(i, v) acc. acc[i := v]) (zip indices vals) out"

definition pad_input :: "'a \<Rightarrow> 'a list \<Rightarrow> nat list \<Rightarrow> nat \<Rightarrow> nat \<Rightarrow> error + 'a list list" where
  "pad_input z hidden_states indices batch seqlen =
     (if length hidden_states \<noteq> length indices then Inl RuntimeError
      else if \<not> list_all (\<lambda>i. i < batch * seqlen) indices then Inl IndexError
      else Inr (unflatten batch seqlen
                  (index_put (replicate (batch * seqlen) z) indices hidden_states)))"

text \<open>\<^verbatim>\<open>torch.roll(x, shifts=-1, dims=1)\<close> on a \<open>(1, total_nnz)\<close> tensor.\<close>

definition roll_left :: "'a list \<Rightarrow> 'a list" where
  "roll_left xs = (case xs of [] \<Rightarrow> [] | x # r \<Rightarrow> r @ [x])"

text \<open>
  The place of position \<open>p\<close> of example \<open>i\<close> in the packed stream: the number of
  attended positions before it in the flattened mask.
\<close>

definition packed_slot :: "tensor \<Rightarrow> nat \<Rightarrow> nat \<Rightarrow> nat" where
  "packed_slot attention_mask i p =
     length (filter (\<lambda>q. concat attention_mask ! q \<noteq> 0) [0..<i * ncols attention_mask + p])"

section \<open>The actor and its collaborators\<close>

text \<open>The keyword arguments of one call of \<^verbatim>\<open>self.actor_module(...)\<close>.\<close>

record forward_args =
  fw_input_ids :: tensor
  fw_attention_mask :: "tensor option"
  fw_position_ids :: tensor
  fw_use_cache :: bool

text \<open>
  \<^verbatim>\<open>self.config\<close>.  A field read with \<^verbatim>\<open>config.get(k, default)\<close> or tested with
  \<^verbatim>\<open>hasattr\<close> is optional.
\<close>

datatype cliprange = ClipPair real real | ClipSingle real

record config =
  use_remove_padding :: "bool option"
  ulysses_sequence_parallel_size :: nat
  grad_clip :: "real option"
  use_kl_loss :: bool
  use_sft_loss :: "bool option"
  sft_type :: "string option"
  ppo_mini_batch_size :: nat
  ppo_micro_batch_size_per_gpu :: nat
  use_dynamic_bsz :: bool
  ppo_max_token_len_per_gpu :: nat
  clip_ratio_low :: "real option"
  clip_ratio_high :: "real option"
  clip_ratio :: real
  entropy_coeff :: real
  loss_agg_mode :: "string option"
  max_tokens :: "nat option"
  kl_loss_type :: string
  kl_loss_coef :: real
  sft_loss_coef :: real

text \<open>The attributes \<^verbatim>\<open>__init__\<close> derives from the configuration (lines 51 to 54).\<close>

definition self_use_remove_padding :: "config \<Rightarrow> bool" where
  "self_use_remove_padding cfg = (case use_remove_padding cfg of None \<Rightarrow> False | Some b \<Rightarrow> b)"

definition use_ulysses_sp :: "config \<Rightarrow> bool" where
  "use_ulysses_sp cfg = (ulysses_sequence_parallel_size cfg > 1)"

text \<open>
  A gradient is kept symbolically, as the operations applied to it since it was last
  zeroed: each \<^verbatim>\<open>loss.backward()\<close> with the micro-batch and the loss it was called on,
  and each clipping with its maximal norm.  The empty list is the zero gradient.
\<close>

datatype grad_op = Backward tensordict fl | Clip real

text \<open>
  Code that the actor calls and that is not part of the file: the model, the optimizer,
  the gradient clipping, the sequence-parallel collectives, the per-token helpers of
  \<^verbatim>\<open>verl.utils.torch_functional\<close>, the loss functions of
  \<^verbatim>\<open>verl.trainer.ppo.core_algos\<close> and the micro-batch planner.  They are parameters.
  \<open>'p\<close> is the type of the model parameters together with the optimizer's own state;
  the boolean argument of the model is its training flag (\<^verbatim>\<open>train()\<close>,
  \<^verbatim>\<open>eval()\<close>).
\<close>

record 'p collab =
  actor_module :: "bool \<Rightarrow> 'p \<Rightarrow> forward_args \<Rightarrow> real list list list"
  entropy_from_logits :: "real list \<Rightarrow> real"
  logprobs_from_logits :: "real list \<Rightarrow> real \<Rightarrow> real"
  ulysses_pad_and_slice_inputs ::
    "real list \<Rightarrow> real list option \<Rightarrow> nat \<Rightarrow> real list \<times> real list option \<times> nat"
  gather_outpus_and_unpad :: "real list \<Rightarrow> nat \<Rightarrow> real list"
  rearrange_micro_batches :: "tensordict \<Rightarrow> nat \<Rightarrow> error + (tensordict list \<times> nat list list)"
  compute_policy_loss ::
    "tensor \<Rightarrow> tensor \<Rightarrow> tensor \<Rightarrow> tensor \<Rightarrow> cliprange \<Rightarrow> string \<Rightarrow> nat option
       \<Rightarrow> real \<times> real \<times> real"
  agg_loss :: "tensor \<Rightarrow> tensor \<Rightarrow> string \<Rightarrow> nat option \<Rightarrow> real"
  kl_penalty :: "tensor \<Rightarrow> tensor \<Rightarrow> string \<Rightarrow> tensor"
  is_fsdp :: bool
  fsdp_clip_grad_norm :: "'p \<Rightarrow> grad_op list \<Rightarrow> real \<Rightarrow> fl"
  nn_clip_grad_norm :: "'p \<Rightarrow> grad_op list \<Rightarrow> real \<Rightarrow> fl"
  optimizer_step_fn :: "'p \<Rightarrow> grad_op list \<Rightarrow> 'p"

section \<open>The per-micro-batch forward\<close>

text \<open>\<^verbatim>\<open>logprobs_from_logits(logits, labels)\<close> on a flat stream: one label per position.\<close>

definition logprobs_flat :: "'p collab \<Rightarrow> real list list \<Rightarrow> real list \<Rightarrow> error + real list" where
  "logprobs_flat ext logits labels =
     (if length logits \<noteq> length labels then Inl RuntimeError
      else Inr (map (\<lambda>(l, y). logprobs_from_logits ext l y) (zip logits labels)))"

definition logprobs_rows ::
  "'p collab \<Rightarrow> real list list list \<Rightarrow> tensor \<Rightarrow> error + tensor" where
  "logprobs_rows ext logits labels =
     (if map length logits \<noteq> map length labels then Inl RuntimeError
      else Inr (map (\<lambda>(ls, ys). map (\<lambda>(l, y). logprobs_from_logits ext l y) (zip ls ys))
                  (zip logits labels)))"

text \<open>\<^verbatim>\<open>logits.div_(temperature)\<close>.\<close>

definition div_temperature :: "real \<Rightarrow> real list list \<Rightarrow> real list list" where
  "div_temperature temperature logits = map (map (\<lambda>x. x / temperature)) logits"

text \<open>
  \<^verbatim>\<open>output.logits.squeeze(0)\<close>: the packed path passes a batch of one stream, and
  the logits of that stream are expected back.
\<close>

definition squeeze0 :: "'a list \<Rightarrow> error + 'a" where
  "squeeze0 out = (case out of [x] \<Rightarrow> Inr x | _ \<Rightarrow> Inl RuntimeError)"

text \<open>
  Lines 76 to 95 and 163 to 182: packing of the inputs.  The result is the token
  stream, the position stream, the rolled labels, the scatter indices and the
  sequence-parallel padding.
\<close>

definition pack_inputs ::
  "'p collab \<Rightarrow> config \<Rightarrow> tensor \<Rightarrow> tensor \<Rightarrow> tensor
     \<Rightarrow> error + (real list \<times> real list \<times> real list \<times> nat list \<times> nat)" where
  "pack_inputs ext cfg input_ids attention_mask position_ids =
     (case unpad_input input_ids attention_mask of
        Inl e \<Rightarrow> Inl e
      | Inr (input_ids_rmpad, indices) \<Rightarrow>
     (case index_first_axis (concat position_ids) indices of
        Inl e \<Rightarrow> Inl e
      | Inr position_ids_rmpad \<Rightarrow>
     (let input_ids_rmpad_rolled = roll_left input_ids_rmpad
      in if use_ulysses_sp cfg then
           (case ulysses_pad_and_slice_inputs ext input_ids_rmpad (Some position_ids_rmpad)
                   (ulysses_sequence_parallel_size cfg) of
              (ids, pos, pad_size) \<Rightarrow>
              (case pos of
                 None \<Rightarrow> Inl RuntimeError
               | Some pos' \<Rightarrow>
                   Inr (ids, pos',
                        fst (ulysses_pad_and_slice_inputs ext input_ids_rmpad_rolled None
                               (ulysses_sequence_parallel_size cfg)),
                        indices, pad_size)))
         else Inr (input_ids_rmpad, position_ids_rmpad, input_ids_rmpad_rolled, indices, 0))))"

text \<open>The call of line 98 (and 185): what the model is given on the packed path.\<close>

definition packed_args :: "real list \<Rightarrow> real list \<Rightarrow> forward_args" where
  "packed_args input_ids_rmpad position_ids_rmpad =
     \<lparr>fw_input_ids = [input_ids_rmpad], fw_attention_mask = None,
      fw_position_ids = [position_ids_rmpad], fw_use_cache = False\<rparr>"

text \<open>
  Lines 106 to 128: entropy and log-probabilities of the packed stream, gathered when the
  stream is sharded, and scattered back to the \<open>(batch, seqlen)\<close> layout.
\<close>

definition packed_outputs ::
  "'p collab \<Rightarrow> config \<Rightarrow> real list list \<Rightarrow> real list \<Rightarrow> nat list \<Rightarrow> nat \<Rightarrow> nat \<Rightarrow> nat
     \<Rightarrow> error + (tensor \<times> tensor)" where
  "packed_outputs ext cfg logits_rmpad input_ids_rmpad_rolled indices pad_size batch seqlen =
     (let entropy_rmpad = map (entropy_from_logits ext) logits_rmpad in
     (case logprobs_flat ext logits_rmpad input_ids_rmpad_rolled of
        Inl e \<Rightarrow> Inl e
      | Inr log_probs \<Rightarrow>
         (let log_probs' = (if use_ulysses_sp cfg
                            then gather_outpus_and_unpad ext log_probs pad_size else log_probs);
              entropy_rmpad' = (if use_ulysses_sp cfg
                                then gather_outpus_and_unpad ext entropy_rmpad pad_size
                                else entropy_rmpad)
          in (case pad_input 0 entropy_rmpad' indices batch seqlen of
                Inl e \<Rightarrow> Inl e
              | Inr full_entropy \<Rightarrow>
                 (case pad_input 0 log_probs' indices batch seqlen of
                    Inl e \<Rightarrow> Inl e
                  | Inr full_log_probs \<Rightarrow> Inr (full_entropy, full_log_probs))))))"

text \<open>Lines 136 to 144: the path without packing.\<close>

definition dense_outputs ::
  "'p collab \<Rightarrow> (forward_args \<Rightarrow> real list list list) \<Rightarrow> tensor \<Rightarrow> tensor \<Rightarrow> tensor \<Rightarrow> tensor
     \<Rightarrow> real \<Rightarrow> error + (tensor \<times> tensor \<times> real list list list)" where
  "dense_outputs ext model_fn input_ids attention_mask position_ids responses temperature =
     (let output = model_fn \<lparr>fw_input_ids = input_ids, fw_attention_mask = Some attention_mask,
                             fw_position_ids = position_ids, fw_use_cache = False\<rparr>;
          logits = response_slice (ncols responses) (map (div_temperature temperature) output)
      in (case logprobs_rows ext logits responses of
            Inl e \<Rightarrow> Inl e
          | Inr log_probs \<Rightarrow> Inr (map (map (entropy_from_logits ext)) logits, log_probs, logits)))"

text \<open>\<^verbatim>\<open>_forward_micro_batch\<close>, lines 58 to 146.\<close>

definition forward_micro_batch ::
  "'p collab \<Rightarrow> config \<Rightarrow> (forward_args \<Rightarrow> real list list list) \<Rightarrow> tensordict \<Rightarrow> real
     \<Rightarrow> error + (tensor \<times> tensor)" where
  "forward_micro_batch ext cfg model_fn micro_batch temperature =
     (case getitem micro_batch ''responses'' of Inl e \<Rightarrow> Inl e | Inr responses \<Rightarrow>
     (case getitem micro_batch ''input_ids'' of Inl e \<Rightarrow> Inl e | Inr input_ids \<Rightarrow>
     (case getitem micro_batch ''attention_mask'' of Inl e \<Rightarrow> Inl e | Inr attention_mask \<Rightarrow>
     (case getitem micro_batch ''position_ids'' of Inl e \<Rightarrow> Inl e | Inr position_ids \<Rightarrow>
      if self_use_remove_padding cfg then
        (case pack_inputs ext cfg input_ids attention_mask position_ids of
           Inl e \<Rightarrow> Inl e
         | Inr (input_ids_rmpad, position_ids_rmpad, input_ids_rmpad_rolled, indices, pad_size) \<Rightarrow>
        (case squeeze0 (model_fn (packed_args input_ids_rmpad position_ids_rmpad)) of
           Inl e \<Rightarrow> Inl e
         | Inr output \<Rightarrow>
        (case packed_outputs ext cfg (div_temperature temperature output) input_ids_rmpad_rolled
                indices pad_size (length input_ids) (ncols input_ids) of
           Inl e \<Rightarrow> Inl e
         | Inr (full_entropy, full_log_probs) \<Rightarrow>
             Inr (response_slice (ncols responses) full_entropy,
                  response_slice (ncols responses) full_log_probs))))
      else
        (case dense_outputs ext model_fn input_ids attention_mask position_ids responses
                temperature of
           Inl e \<Rightarrow> Inl e
         | Inr (entropy, log_probs, logits) \<Rightarrow> Inr (entropy, log_probs))))))"

text \<open>
  \<^verbatim>\<open>_forward_micro_batch_2\<close>: the same forward, returning the full logits as well.
  On the packed path with sequence parallelism the assertion of line 215 follows the two
  gathers; nothing of what they return is used.
\<close>

definition forward_micro_batch_2 ::
  "'p collab \<Rightarrow> config \<Rightarrow> (forward_args \<Rightarrow> real list list list) \<Rightarrow> tensordict \<Rightarrow> real
     \<Rightarrow> error + (tensor \<times> tensor \<times> real list list list)" where
  "forward_micro_batch_2 ext cfg model_fn micro_batch temperature =
     (case getitem micro_batch ''responses'' of Inl e \<Rightarrow> Inl e | Inr responses \<Rightarrow>
      let response_length = ncols responses in
     (case getitem micro_batch ''input_ids'' of Inl e \<Rightarrow> Inl e | Inr input_ids \<Rightarrow>
      let batch = length input_ids; seqlen = ncols input_ids in
     (case getitem micro_batch ''attention_mask'' of Inl e \<Rightarrow> Inl e | Inr attention_mask \<Rightarrow>
     (case getitem micro_batch ''position_ids'' of Inl e \<Rightarrow> Inl e | Inr position_ids \<Rightarrow>
      if self_use_remove_padding cfg then
        (case pack_inputs ext cfg input_ids attention_mask position_ids of
           Inl e \<Rightarrow> Inl e
         | Inr (input_ids_rmpad, position_ids_rmpad, input_ids_rmpad_rolled, indices, pad_size) \<Rightarrow>
        (case squeeze0 (model_fn (packed_args input_ids_rmpad position_ids_rmpad)) of
           Inl e \<Rightarrow> Inl e
         | Inr output \<Rightarrow>
         let logits_rmpad = div_temperature temperature output;
             entropy_rmpad = map (entropy_from_logits ext) logits_rmpad
         in
        (case logprobs_flat ext logits_rmpad input_ids_rmpad_rolled of
           Inl e \<Rightarrow> Inl e
         | Inr log_probs \<Rightarrow>
         if use_ulysses_sp cfg then
           (let log_probs' = gather_outpus_and_unpad ext log_probs pad_size;
                entropy_rmpad' = gather_outpus_and_unpad ext entropy_rmpad pad_size
            in Inl AssertionError)
         else
        (case pad_input 0 entropy_rmpad indices batch seqlen of
           Inl e \<Rightarrow> Inl e
         | Inr full_entropy \<Rightarrow>
        (case pad_input 0 log_probs indices batch seqlen of
           Inl e \<Rightarrow> Inl e
         | Inr full_log_probs \<Rightarrow>
        (case pad_input (replicate (ncols logits_rmpad) 0) logits_rmpad indices batch seqlen of
           Inl e \<Rightarrow> Inl e
         | Inr all_logits \<Rightarrow>
             Inr (response_slice response_length full_entropy,
                  response_slice response_length full_log_probs,
                  response_slice response_length all_logits)))))))
      else dense_outputs ext model_fn input_ids attention_mask position_ids responses
             temperature))))"

section \<open>Batches, selection and splitting\<close>

record meta_info =
  meta_micro_batch_size :: "nat option"
  meta_temperature :: "real option"
  meta_use_dynamic_bsz :: "bool option"
  meta_max_token_len :: "nat option"

record dataproto =
  batch :: tensordict
  meta :: meta_info

text \<open>\<^verbatim>\<open>data.meta_info[k]\<close>.\<close>

definition meta_get :: "'a option \<Rightarrow> error + 'a" where
  "meta_get v = (case v of None \<Rightarrow> Inl KeyError | Some x \<Rightarrow> Inr x)"

text \<open>
  Modelled from the spec: \<^verbatim>\<open>DataProto.select\<close> (\<^verbatim>\<open>verl/protocol.py\<close>) is not part
  of the file.  The spec's batch is a mapping of named tensors sharing the example
  dimension; selecting keeps exactly the named tensors, and naming a tensor the batch does
  not have is a failure (\<open>KeyError\<close>).
\<close>

definition select :: "string list \<Rightarrow> tensordict \<Rightarrow> error + tensordict" where
  "select batch_keys td =
     (if list_all (contains td) batch_keys
      then Inr \<lparr>batch_size = batch_size td,
                entries = map (\<lambda>k. (k, the (map_of (entries td) k))) batch_keys\<rparr>
      else Inl KeyError)"

text \<open>
  \<^verbatim>\<open>batch.split(split_size)\<close> along the example dimension: consecutive chunks of
  \<open>split_size\<close> examples, the last one shorter; an empty batch gives one empty chunk; a
  zero \<open>split_size\<close> on a batch is an error.
\<close>

definition split_starts :: "nat \<Rightarrow> nat \<Rightarrow> nat list" where
  "split_starts split_size n =
     (if n = 0 then [0] else map (\<lambda>i. i * split_size) [0..<(n + split_size - 1) div split_size])"

definition td_rows :: "nat \<Rightarrow> nat \<Rightarrow> tensordict \<Rightarrow> tensordict" where
  "td_rows start n td =
     \<lparr>batch_size = min n (batch_size td - start),
      entries = map (\<lambda>(k, t). (k, take n (drop start t))) (entries td)\<rparr>"

definition split :: "nat \<Rightarrow> tensordict \<Rightarrow> error + tensordict list" where
  "split split_size td =
     (if split_size = 0 then Inl RuntimeError
      else Inr (map (\<lambda>s. td_rows s split_size td) (split_starts split_size (batch_size td))))"

text \<open>\<^verbatim>\<open>torch.concat(ts, dim=0)\<close>: an empty list of tensors is refused.\<close>

definition torch_concat :: "'a list list \<Rightarrow> error + 'a list" where
  "torch_concat ts = (if ts = [] then Inl RuntimeError else Inr (concat ts))"

text \<open>
  Modelled from the spec: \<^verbatim>\<open>get_reverse_idx\<close> (\<^verbatim>\<open>verl/utils/seqlen_balancing.py\<close>)
  is not part of the file.  The spec asks for the reverse permutation of the flattened
  index list, the one with \<open>result[p] == concatenated[reverse[p]]\<close> for every original
  position \<open>p\<close>: \<open>reverse[p]\<close> is the slot of the flattened list that holds \<open>p\<close>.
\<close>

fun position_of :: "nat \<Rightarrow> nat list \<Rightarrow> nat" where
  "position_of p [] = 0"
| "position_of p (x # xs) = (if x = p then 0 else Suc (position_of p xs))"

definition get_reverse_idx :: "nat list \<Rightarrow> nat list" where
  "get_reverse_idx idx_map = map (\<lambda>p. position_of p idx_map) [0..<length idx_map]"

section \<open>compute_log_prob and compute_all_logits\<close>

text \<open>The loop over the micro-batches: the first failing forward ends it.\<close>

fun forward_all :: "(tensordict \<Rightarrow> error + 'a) \<Rightarrow> tensordict list \<Rightarrow> error + 'a list" where
  "forward_all f [] = Inr []"
| "forward_all f (micro_batch # rest) =
     (case f micro_batch of
        Inl e \<Rightarrow> Inl e
      | Inr r \<Rightarrow> (case forward_all f rest of Inl e \<Rightarrow> Inl e | Inr rs \<Rightarrow> Inr (r # rs)))"

text \<open>
  Lines 301 to 306: the micro-batches, and under dynamic batching the index lists of the
  planner.
\<close>

definition make_micro_batches ::
  "'p collab \<Rightarrow> config \<Rightarrow> dataproto \<Rightarrow> tensordict \<Rightarrow> bool \<Rightarrow> nat
     \<Rightarrow> error + (tensordict list \<times> nat list list)" where
  "make_micro_batches ext cfg data b dynamic micro_batch_size =
     (if dynamic then
        (case meta_get (meta_max_token_len (meta data)) of
           Inl e \<Rightarrow> Inl e
         | Inr max_token_len \<Rightarrow>
             rearrange_micro_batches ext b (max_token_len * ulysses_sequence_parallel_size cfg))
      else (case split micro_batch_size b of
              Inl e \<Rightarrow> Inl e
            | Inr micro_batches \<Rightarrow> Inr (micro_batches, [])))"

text \<open>Lines 320 to 326 (and 443 to 447): the assertion and the reindexing.\<close>

definition revert_order :: "nat list list \<Rightarrow> 'a list \<Rightarrow> error + nat list" where
  "revert_order indices log_probs =
     (let indices' = concat indices
      in if length indices' \<noteq> length log_probs then Inl AssertionError
         else Inr (get_reverse_idx indices'))"

definition compute_log_prob ::
  "'p collab \<Rightarrow> config \<Rightarrow> 'p \<Rightarrow> dataproto \<Rightarrow> error + (tensor \<times> tensor)" where
  "compute_log_prob ext cfg ps data =
     (case meta_get (meta_micro_batch_size (meta data)) of Inl e \<Rightarrow> Inl e | Inr micro_batch_size \<Rightarrow>
     (case meta_get (meta_temperature (meta data)) of Inl e \<Rightarrow> Inl e | Inr temperature \<Rightarrow>
     (case meta_get (meta_use_dynamic_bsz (meta data)) of Inl e \<Rightarrow> Inl e | Inr dynamic \<Rightarrow>
     (case select [''responses'', ''input_ids'', ''attention_mask'', ''position_ids'']
             (batch data) of Inl e \<Rightarrow> Inl e | Inr b \<Rightarrow>
     (case make_micro_batches ext cfg data b dynamic micro_batch_size of
        Inl e \<Rightarrow> Inl e
      | Inr (micro_batches, indices) \<Rightarrow>
     (case forward_all (\<lambda>mb. forward_micro_batch ext cfg (actor_module ext False ps) mb temperature)
             micro_batches of
        Inl e \<Rightarrow> Inl e
      | Inr outs \<Rightarrow>
     (case torch_concat (map snd outs) of Inl e \<Rightarrow> Inl e | Inr log_probs \<Rightarrow>
     (case torch_concat (map fst outs) of Inl e \<Rightarrow> Inl e | Inr entropy \<Rightarrow>
      if dynamic then
        (case revert_order indices log_probs of
           Inl e \<Rightarrow> Inl e
         | Inr revert_indices \<Rightarrow>
        (case index_first_axis log_probs revert_indices of
           Inl e \<Rightarrow> Inl e
         | Inr log_probs' \<Rightarrow>
        (case index_first_axis entropy revert_indices of
           Inl e \<Rightarrow> Inl e
         | Inr entropy' \<Rightarrow> Inr (log_probs', entropy'))))
      else Inr (log_probs, entropy)))))))))"

definition compute_all_logits ::
  "'p collab \<Rightarrow> config \<Rightarrow> 'p \<Rightarrow> dataproto \<Rightarrow> error + real list list list" where
  "compute_all_logits ext cfg ps data =
     (case meta_get (meta_micro_batch_size (meta data)) of Inl e \<Rightarrow> Inl e | Inr micro_batch_size \<Rightarrow>
     (case meta_get (meta_temperature (meta data)) of Inl e \<Rightarrow> Inl e | Inr temperature \<Rightarrow>
     (case meta_get (meta_use_dynamic_bsz (meta data)) of Inl e \<Rightarrow> Inl e | Inr dynamic \<Rightarrow>
     (case select [''responses'', ''input_ids'', ''attention_mask'', ''position_ids'']
             (batch data) of Inl e \<Rightarrow> Inl e | Inr b \<Rightarrow>
     (case make_micro_batches ext cfg data b dynamic micro_batch_size of
        Inl e \<Rightarrow> Inl e
      | Inr (micro_batches, indices) \<Rightarrow>
     (case forward_all
             (\<lambda>mb. forward_micro_batch_2 ext cfg (actor_module ext False ps) mb temperature)
             micro_batches of
        Inl e \<Rightarrow> Inl e
      | Inr outs \<Rightarrow>
     (case torch_concat (map (\<lambda>(_, _, all_logits). all_logits) outs) of
        Inl e \<Rightarrow> Inl e
      | Inr all_logits \<Rightarrow>
      if dynamic then
        (case revert_order indices all_logits of
           Inl e \<Rightarrow> Inl e
         | Inr revert_indices \<Rightarrow> index_first_axis all_logits revert_indices)
      else Inr all_logits)))))))"

text \<open>
  Modelled from the spec: \<^verbatim>\<open>rearrange_micro_batches\<close>
  (\<^verbatim>\<open>verl/utils/seqlen_balancing.py\<close>) is not part of the file; the actor takes it as
  a collaborator.  This is the spec's dynamic mode, read as first fit: the examples are
  taken in order, the token count of an example is the number of valid positions of its
  attention mask, an example joins the first group whose total stays within the budget
  and opens a new group when there is none; an example that exceeds the budget alone
  cannot be placed and is refused.  Next to the micro-batches it returns, group by group,
  the original positions of their examples.
\<close>

fun place :: "nat \<Rightarrow> nat \<times> nat \<Rightarrow> (nat list \<times> nat) list \<Rightarrow> (nat list \<times> nat) list" where
  "place budget (i, t) [] = [([i], t)]"
| "place budget (i, t) ((g, tot) # groups) =
     (if tot + t \<le> budget then (g @ [i], tot + t) # groups
      else (g, tot) # place budget (i, t) groups)"

definition token_counts :: "tensor \<Rightarrow> nat list" where
  "token_counts attention_mask = map (\<lambda>row. length (filter (\<lambda>x. x \<noteq> 0) row)) attention_mask"

definition index_select :: "nat list \<Rightarrow> tensordict \<Rightarrow> tensordict" where
  "index_select idx td =
     \<lparr>batch_size = length idx,
      entries = map (\<lambda>(k, t). (k, map (\<lambda>i. t ! i) idx)) (entries td)\<rparr>"

definition greedy_micro_batches ::
  "tensordict \<Rightarrow> nat \<Rightarrow> error + (tensordict list \<times> nat list list)" where
  "greedy_micro_batches b max_token_len =
     (case getitem b ''attention_mask'' of
        Inl e \<Rightarrow> Inl e
      | Inr attention_mask \<Rightarrow>
          let counts = token_counts attention_mask in
          if length counts \<noteq> batch_size b then Inl RuntimeError
          else if \<not> list_all (\<lambda>t. t \<le> max_token_len) counts then Inl AssertionError
          else let indices = map fst (fold (place max_token_len)
                                        (zip [0..<length counts] counts) [])
               in Inr (map (\<lambda>idx. index_select idx b) indices, indices))"

section \<open>update_policy\<close>

text \<open>
  What the update works on: the parameters (with the optimizer's own state), the
  accumulated gradient and what was printed.
\<close>

datatype printed = WarnGradNormNotFinite fl

record 'p actor_state =
  params :: 'p
  grads :: "grad_op list"
  stdout :: "printed list"

definition zero_grad :: "'p actor_state \<Rightarrow> 'p actor_state" where
  "zero_grad st = st\<lparr>grads := []\<rparr>"

definition isfinite :: "fl \<Rightarrow> bool" where
  "isfinite x = (case x of Finite _ \<Rightarrow> True | _ \<Rightarrow> False)"

text \<open>Lines 260 to 263: the norm comes from the clipping primitive of the wrapped model.\<close>

definition clip_grad_norm :: "'p collab \<Rightarrow> 'p actor_state \<Rightarrow> real \<Rightarrow> fl" where
  "clip_grad_norm ext st max_norm =
     (if is_fsdp ext then fsdp_clip_grad_norm ext (params st) (grads st) max_norm
      else nn_clip_grad_norm ext (params st) (grads st) max_norm)"

text \<open>\<^verbatim>\<open>_optimizer_step\<close>, lines 257 to 271.\<close>

definition optimizer_step ::
  "'p collab \<Rightarrow> config \<Rightarrow> 'p actor_state \<Rightarrow> error + (fl \<times> 'p actor_state)" where
  "optimizer_step ext cfg st =
     (case grad_clip cfg of
        None \<Rightarrow> Inl AssertionError
      | Some max_norm \<Rightarrow>
          let grad_norm = clip_grad_norm ext st max_norm;
              st1 = st\<lparr>grads := grads st @ [Clip max_norm]\<rparr>
          in if \<not> isfinite grad_norm
             then Inr (grad_norm,
                       zero_grad (st1\<lparr>stdout := stdout st1 @ [WarnGradNormNotFinite grad_norm]\<rparr>))
             else Inr (grad_norm, st1\<lparr>params := optimizer_step_fn ext (params st1) (grads st1)\<rparr>))"

subsection \<open>The metrics dictionary\<close>

datatype metric_val = Scalar fl | Series "fl list"

type_synonym metrics = "(string \<times> metric_val) list"

text \<open>\<^verbatim>\<open>d[k] = v\<close> on a dictionary kept in insertion order.\<close>

fun dict_set :: "('k \<times> 'v) list \<Rightarrow> 'k \<Rightarrow> 'v \<Rightarrow> ('k \<times> 'v) list" where
  "dict_set [] k v = [(k, v)]"
| "dict_set ((k', v') # d) k v = (if k' = k then (k, v) # d else (k', v') # dict_set d k v)"

text \<open>
  Modelled from the spec: \<^verbatim>\<open>append_to_dict\<close> (\<^verbatim>\<open>verl/utils/py_functional.py\<close>) is
  not part of the file.  The spec's accumulator maps a metric name to an ordered sequence
  of scalars, and recording appends one value under each name, starting the sequence when
  the name is new.  A name that holds a plain number has no \<open>append\<close>.
\<close>

fun append_to_dict :: "metrics \<Rightarrow> (string \<times> fl) list \<Rightarrow> error + metrics" where
  "append_to_dict d [] = Inr d"
| "append_to_dict d ((k, v) # new_data) =
     (case map_of d k of
        None \<Rightarrow> append_to_dict (dict_set d k (Series [v])) new_data
      | Some (Series vs) \<Rightarrow> append_to_dict (dict_set d k (Series (vs @ [v]))) new_data
      | Some (Scalar _) \<Rightarrow> Inl AttributeError)"

subsection \<open>Configuration tests and key selection\<close>

definition multi_task :: "config \<Rightarrow> bool" where
  "multi_task cfg =
     ((case use_sft_loss cfg of None \<Rightarrow> False | Some b \<Rightarrow> b) \<and>
      (case sft_type cfg of None \<Rightarrow> ''bilevel'' | Some s \<Rightarrow> s) = ''multi_task'')"

definition sft_bilevel :: "config \<Rightarrow> bool" where
  "sft_bilevel cfg =
     ((case use_sft_loss cfg of None \<Rightarrow> False | Some b \<Rightarrow> b) \<and> sft_type cfg = Some ''bilevel'')"

text \<open>Lines 464 to 481.\<close>

definition select_keys_of :: "config \<Rightarrow> tensordict \<Rightarrow> string \<Rightarrow> error + string list" where
  "select_keys_of cfg b mode =
     (if mode = ''normal'' then
        Inr ([''responses'', ''input_ids'', ''attention_mask'', ''position_ids'',
              ''old_log_probs'', ''advantages'']
             @ (if use_kl_loss cfg then [''ref_log_prob''] else [])
             @ (if multi_task cfg then [''ground_truth_mask_pr'', ''old_log_probs_pr''] else [])
             @ (if contains b ''response_mask_prob'' then [''response_mask_pr''] else []))
      else if mode = ''sft_only'' then
        (if sft_bilevel cfg
         then Inr [''responses'', ''input_ids'', ''attention_mask'', ''position_ids'',
                   ''old_log_probs'', ''ground_truth_mask_pr'', ''old_log_probs_pr'']
         else Inl AssertionError)
      else Inl NotImplementedError)"

subsection \<open>The loss of one micro-batch\<close>

text \<open>Lines 508 to 512: the response mask.\<close>

definition response_mask_of :: "tensordict \<Rightarrow> nat \<Rightarrow> error + tensor" where
  "response_mask_of data response_length =
     (if contains data ''response_mask_pr'' then getitem data ''response_mask_pr''
      else (case getitem data ''attention_mask'' of
              Inl e \<Rightarrow> Inl e
            | Inr attention_mask \<Rightarrow>
                Inr (map (py_slice_from (- int response_length)) attention_mask)))"

text \<open>
  Lines 559 to 564 and 582 to 587: the supervised loss.  The two tensors come from one
  batch and have one shape; broadcasting of unequal shapes is not represented, they are
  refused.
\<close>

definition count_nonzero :: "real list \<Rightarrow> nat" where
  "count_nonzero xs = length (filter (\<lambda>x. x \<noteq> 0) xs)"

definition sft_loss_of :: "tensor \<Rightarrow> tensor \<Rightarrow> error + real" where
  "sft_loss_of ground_truth_mask_pr old_log_prob_pr =
     (if map length ground_truth_mask_pr \<noteq> map length old_log_prob_pr then Inl RuntimeError
      else
        let eps = 1 / 1000000;
            gt_old_log_prob_pr = map (\<lambda>(m, l). map (\<lambda>(x, y). x * y) (zip m l))
                                   (zip ground_truth_mask_pr old_log_prob_pr);
            token_mean_gt_old_log_prob_pr =
              map (\<lambda>(g, m). sum_list g / (sum_list m + eps))
                (zip gt_old_log_prob_pr ground_truth_mask_pr);
            sft_log_probs = sum_list token_mean_gt_old_log_prob_pr
                            / (real (count_nonzero token_mean_gt_old_log_prob_pr) + eps)
        in Inr (- sft_log_probs))"

text \<open>
  After the branch on the mode the name \<^verbatim>\<open>data\<close> is bound either to the micro-batch
  still (mode \<^verbatim>\<open>sft_only\<close>) or to the dictionary of line 569 (mode \<^verbatim>\<open>normal\<close>).
\<close>

datatype data_binding = DataBatch tensordict | DataDict "(string \<times> fl) list"

definition len_data :: "data_binding \<Rightarrow> nat" where
  "len_data d = (case d of DataBatch td \<Rightarrow> batch_size td | DataDict kv \<Rightarrow> length kv)"

text \<open>Lines 541 to 552: the KL term.\<close>

definition kl_term ::
  "'p collab \<Rightarrow> config \<Rightarrow> tensordict \<Rightarrow> tensor \<Rightarrow> tensor \<Rightarrow> string \<Rightarrow> real \<Rightarrow> metrics
     \<Rightarrow> error + (real \<times> metrics)" where
  "kl_term ext cfg data log_prob response_mask agg_mode policy_loss ms =
     (if use_kl_loss cfg then
        (case getitem data ''ref_log_prob'' of
           Inl e \<Rightarrow> Inl e
         | Inr ref_log_prob \<Rightarrow>
             let kld = kl_penalty ext log_prob ref_log_prob (kl_loss_type cfg);
                 kl_loss = agg_loss ext kld response_mask agg_mode (max_tokens cfg)
             in Inr (policy_loss + kl_loss * kl_loss_coef cfg,
                     dict_set (dict_set ms ''actor/kl_loss'' (Scalar (Finite kl_loss)))
                       ''actor/kl_coef'' (Scalar (Finite (kl_loss_coef cfg)))))
      else Inr (policy_loss, ms))"

text \<open>Lines 554 to 567: the supervised term of the multi-task objective.\<close>

definition sft_term ::
  "config \<Rightarrow> tensordict \<Rightarrow> real \<Rightarrow> metrics \<Rightarrow> error + (real \<times> metrics)" where
  "sft_term cfg data policy_loss ms =
     (if multi_task cfg then
        (case getitem data ''ground_truth_mask_pr'' of Inl e \<Rightarrow> Inl e | Inr ground_truth_mask_pr \<Rightarrow>
        (case getitem data ''old_log_probs_pr'' of Inl e \<Rightarrow> Inl e | Inr old_log_prob_pr \<Rightarrow>
        (case sft_loss_of ground_truth_mask_pr old_log_prob_pr of
           Inl e \<Rightarrow> Inl e
         | Inr sft_loss \<Rightarrow>
             Inr (policy_loss + sft_loss * sft_loss_coef cfg,
                  dict_set (dict_set ms ''actor/sft_loss'' (Scalar (Finite sft_loss)))
                    ''actor/sft_coef'' (Scalar (Finite (sft_loss_coef cfg)))))))
      else Inr (policy_loss, ms))"

text \<open>Lines 505 to 575: mode \<^verbatim>\<open>normal\<close>.\<close>

definition normal_step ::
  "'p collab \<Rightarrow> config \<Rightarrow> (forward_args \<Rightarrow> real list list list) \<Rightarrow> real \<Rightarrow> metrics \<Rightarrow> tensordict
     \<Rightarrow> error + (real \<times> metrics \<times> data_binding)" where
  "normal_step ext cfg model_fn temperature ms data =
     (case getitem data ''responses'' of Inl e \<Rightarrow> Inl e | Inr responses \<Rightarrow>
     (case response_mask_of data (ncols responses) of Inl e \<Rightarrow> Inl e | Inr response_mask \<Rightarrow>
     (case getitem data ''old_log_probs'' of Inl e \<Rightarrow> Inl e | Inr old_log_prob \<Rightarrow>
     (case getitem data ''advantages'' of Inl e \<Rightarrow> Inl e | Inr advantages \<Rightarrow>
      let clip = (case (clip_ratio_low cfg, clip_ratio_high cfg) of
                    (Some lo, Some hi) \<Rightarrow> ClipPair lo hi
                  | _ \<Rightarrow> ClipSingle (clip_ratio cfg));
          agg_mode = (case loss_agg_mode cfg of None \<Rightarrow> ''token-mean'' | Some s \<Rightarrow> s)
      in
     (case forward_micro_batch ext cfg model_fn data temperature of
        Inl e \<Rightarrow> Inl e
      | Inr (entropy, log_prob) \<Rightarrow>
     (case compute_policy_loss ext old_log_prob log_prob advantages response_mask clip agg_mode
             (max_tokens cfg) of
        (pg_loss, pg_clipfrac, ppo_kl) \<Rightarrow>
      let entropy_loss = agg_loss ext entropy response_mask agg_mode (max_tokens cfg);
          policy_loss = pg_loss - entropy_loss * entropy_coeff cfg
      in
     (case kl_term ext cfg data log_prob response_mask agg_mode policy_loss ms of
        Inl e \<Rightarrow> Inl e
      | Inr (policy_loss1, ms1) \<Rightarrow>
     (case sft_term cfg data policy_loss1 ms1 of
        Inl e \<Rightarrow> Inl e
      | Inr (policy_loss2, ms2) \<Rightarrow>
      let data' = [(''actor/entropy_loss'', Finite entropy_loss),
                   (''actor/pg_loss'', Finite pg_loss),
                   (''actor/pg_clipfrac'', Finite pg_clipfrac),
                   (''actor/ppo_kl'', Finite ppo_kl)]
      in
     (case append_to_dict ms2 data' of
        Inl e \<Rightarrow> Inl e
      | Inr ms3 \<Rightarrow> Inr (policy_loss2, ms3, DataDict data'))))))))))"

text \<open>Lines 577 to 590: mode \<^verbatim>\<open>sft_only\<close>.\<close>

definition sft_only_step ::
  "config \<Rightarrow> metrics \<Rightarrow> tensordict \<Rightarrow> error + (real \<times> metrics \<times> data_binding)" where
  "sft_only_step cfg ms data =
     (if \<not> sft_bilevel cfg then Inl AssertionError
      else
     (case getitem data ''ground_truth_mask_pr'' of Inl e \<Rightarrow> Inl e | Inr ground_truth_mask_pr \<Rightarrow>
     (case getitem data ''old_log_probs_pr'' of Inl e \<Rightarrow> Inl e | Inr old_log_prob_pr \<Rightarrow>
     (case sft_loss_of ground_truth_mask_pr old_log_prob_pr of
        Inl e \<Rightarrow> Inl e
      | Inr sft_loss \<Rightarrow>
          Inr (sft_loss * sft_loss_coef cfg,
               dict_set (dict_set ms ''actor/sft_loss'' (Scalar (Finite sft_loss)))
                 ''actor/sft_coef'' (Scalar (Finite (sft_loss_coef cfg))),
               DataBatch data)))))"

text \<open>
  Lines 595 to 599: the loss given to \<^verbatim>\<open>backward\<close>.  A tensor divided by the integer
  zero is infinite or not a number.
\<close>

definition tensor_div :: "real \<Rightarrow> nat \<Rightarrow> fl" where
  "tensor_div x n =
     (if n = 0 then (if x > 0 then PosInf else if x < 0 then NegInf else NaN)
      else Finite (x / real n))"

definition scale_loss :: "config \<Rightarrow> nat \<Rightarrow> real \<Rightarrow> data_binding \<Rightarrow> error + fl" where
  "scale_loss cfg gradient_accumulation policy_loss data =
     (if use_dynamic_bsz cfg then
        (if ppo_mini_batch_size cfg = 0 then Inl ZeroDivisionError
         else Inr (Finite (policy_loss * (real (len_data data) / real (ppo_mini_batch_size cfg)))))
      else Inr (tensor_div policy_loss gradient_accumulation))"

text \<open>Lines 502 to 600: one micro-batch, from the forward to \<^verbatim>\<open>loss.backward()\<close>.\<close>

definition micro_batch_step ::
  "'p collab \<Rightarrow> config \<Rightarrow> string \<Rightarrow> real \<Rightarrow> nat \<Rightarrow> 'p actor_state \<times> metrics \<Rightarrow> tensordict
     \<Rightarrow> error + ('p actor_state \<times> metrics)" where
  "micro_batch_step ext cfg mode temperature gradient_accumulation sm data =
     (case sm of (st, ms) \<Rightarrow>
     (case (if mode = ''normal''
            then normal_step ext cfg (actor_module ext True (params st)) temperature ms data
            else if mode = ''sft_only'' then sft_only_step cfg ms data
            else Inl NotImplementedError) of
        Inl e \<Rightarrow> Inl e
      | Inr (policy_loss, ms', data') \<Rightarrow>
     (case scale_loss cfg gradient_accumulation policy_loss data' of
        Inl e \<Rightarrow> Inl e
      | Inr loss \<Rightarrow> Inr (st\<lparr>grads := grads st @ [Backward data loss]\<rparr>, ms'))))"

fun micro_batch_loop ::
  "'p collab \<Rightarrow> config \<Rightarrow> string \<Rightarrow> real \<Rightarrow> nat \<Rightarrow> tensordict list \<Rightarrow> 'p actor_state \<times> metrics
     \<Rightarrow> error + ('p actor_state \<times> metrics)" where
  "micro_batch_loop ext cfg mode temperature ga [] sm = Inr sm"
| "micro_batch_loop ext cfg mode temperature ga (data # rest) sm =
     (case micro_batch_step ext cfg mode temperature ga sm data of
        Inl e \<Rightarrow> Inl e
      | Inr sm' \<Rightarrow> micro_batch_loop ext cfg mode temperature ga rest sm')"

subsection \<open>Mini-batches\<close>

text \<open>
  Lines 492 to 498.  \<^verbatim>\<open>self.gradient_accumulation\<close> is assigned on the fixed branch
  only, and read on the fixed branch only; the dynamic branch carries 0 for it.
\<close>

definition split_mini_batch ::
  "'p collab \<Rightarrow> config \<Rightarrow> tensordict \<Rightarrow> error + (tensordict list \<times> nat)" where
  "split_mini_batch ext cfg mini_batch =
     (if use_dynamic_bsz cfg then
        (case rearrange_micro_batches ext mini_batch
                (ppo_max_token_len_per_gpu cfg * ulysses_sequence_parallel_size cfg) of
           Inl e \<Rightarrow> Inl e
         | Inr (micro_batches, _) \<Rightarrow> Inr (micro_batches, 0))
      else if ppo_micro_batch_size_per_gpu cfg = 0 then Inl ZeroDivisionError
      else (case split (ppo_micro_batch_size_per_gpu cfg) mini_batch of
              Inl e \<Rightarrow> Inl e
            | Inr micro_batches \<Rightarrow>
                Inr (micro_batches,
                     ppo_mini_batch_size cfg div ppo_micro_batch_size_per_gpu cfg)))"

text \<open>Lines 604 to 609.\<close>

definition record_grad_norm :: "string \<Rightarrow> metrics \<Rightarrow> fl \<Rightarrow> error + metrics" where
  "record_grad_norm mode ms grad_norm =
     (if mode = ''normal'' then append_to_dict ms [(''actor/grad_norm'', grad_norm)]
      else if mode = ''sft_only'' then append_to_dict ms [(''acotr/sft_grad_norm'', grad_norm)]
      else Inr ms)"

text \<open>Lines 489 to 609: one mini-batch.\<close>

definition mini_batch_step ::
  "'p collab \<Rightarrow> config \<Rightarrow> string \<Rightarrow> real \<Rightarrow> 'p actor_state \<times> metrics \<Rightarrow> tensordict
     \<Rightarrow> error + ('p actor_state \<times> metrics)" where
  "mini_batch_step ext cfg mode temperature sm mini_batch =
     (case sm of (st, ms) \<Rightarrow>
     (case split_mini_batch ext cfg mini_batch of
        Inl e \<Rightarrow> Inl e
      | Inr (micro_batches, ga) \<Rightarrow>
     (case micro_batch_loop ext cfg mode temperature ga micro_batches (zero_grad st, ms) of
        Inl e \<Rightarrow> Inl e
      | Inr (st2, ms2) \<Rightarrow>
     (case optimizer_step ext cfg st2 of
        Inl e \<Rightarrow> Inl e
      | Inr (grad_norm, st3) \<Rightarrow>
     (case record_grad_norm mode ms2 grad_norm of
        Inl e \<Rightarrow> Inl e
      | Inr ms3 \<Rightarrow> Inr (st3, ms3))))))"

fun mini_batch_loop ::
  "'p collab \<Rightarrow> config \<Rightarrow> string \<Rightarrow> real \<Rightarrow> tensordict list \<Rightarrow> 'p actor_state \<times> metrics
     \<Rightarrow> error + ('p actor_state \<times> metrics)" where
  "mini_batch_loop ext cfg mode temperature [] sm = Inr sm"
| "mini_batch_loop ext cfg mode temperature (mini_batch # rest) sm =
     (case mini_batch_step ext cfg mode temperature sm mini_batch of
        Inl e \<Rightarrow> Inl e
      | Inr sm' \<Rightarrow> mini_batch_loop ext cfg mode temperature rest sm')"

definition update_policy ::
  "'p collab \<Rightarrow> config \<Rightarrow> 'p actor_state \<Rightarrow> dataproto \<Rightarrow> string
     \<Rightarrow> error + ('p actor_state \<times> metrics)" where
  "update_policy ext cfg st data mode =
     (case meta_get (meta_temperature (meta data)) of Inl e \<Rightarrow> Inl e | Inr temperature \<Rightarrow>
     (case select_keys_of cfg (batch data) mode of Inl e \<Rightarrow> Inl e | Inr select_keys \<Rightarrow>
     (case select select_keys (batch data) of Inl e \<Rightarrow> Inl e | Inr b \<Rightarrow>
     (case split (ppo_mini_batch_size cfg) b of Inl e \<Rightarrow> Inl e | Inr dataloader \<Rightarrow>
     (case mini_batch_loop ext cfg mode temperature dataloader (st, []) of
        Inl e \<Rightarrow> Inl e
      | Inr (st', ms) \<Rightarrow> Inr (zero_grad st', ms))))))"

section \<open>Example inputs\<close>

text \<open>
  A small actor on which the theorems below are instantiated: a model with one real
  parameter whose logits for a token \<open>x\<close> are \<open>[x, ps]\<close>, simple stand-ins for the
  per-token helpers and the loss functions, a rank that holds the whole stream, the
  first-fit planner, and a gradient norm that is not a number exactly when the parameter
  is negative.
\<close>

definition ex_collab :: "real collab" where
  "ex_collab =
     \<lparr>actor_module = (\<lambda>training ps args. map (map (\<lambda>x. [x, ps])) (fw_input_ids args)),
      entropy_from_logits = sum_list,
      logprobs_from_logits = (\<lambda>l y. hd l - y),
      ulysses_pad_and_slice_inputs = (\<lambda>xs pos sp. (xs, pos, 0)),
      gather_outpus_and_unpad = (\<lambda>xs pad_size. xs),
      rearrange_micro_batches = greedy_micro_batches,
      compute_policy_loss = (\<lambda>old lp adv mask clip agg mt. (sum_list (concat lp), 0, 0)),
      agg_loss = (\<lambda>x mask agg mt. sum_list (concat x)),
      kl_penalty = (\<lambda>lp ref ty. lp),
      is_fsdp = False,
      fsdp_clip_grad_norm = (\<lambda>ps g c. NaN),
      nn_clip_grad_norm = (\<lambda>ps g c. if ps < 0 then NaN else Finite (real (length g))),
      optimizer_step_fn = (\<lambda>ps g. ps + 1)\<rparr>"

definition ex_cfg :: config where
  "ex_cfg =
     \<lparr>use_remove_padding = Some True, ulysses_sequence_parallel_size = 1,
      grad_clip = Some 1, use_kl_loss = False, use_sft_loss = None, sft_type = None,
      ppo_mini_batch_size = 2, ppo_micro_batch_size_per_gpu = 1, use_dynamic_bsz = False,
      ppo_max_token_len_per_gpu = 4, clip_ratio_low = None, clip_ratio_high = None,
      clip_ratio = 1 / 5, entropy_coeff = 0, loss_agg_mode = None, max_tokens = None,
      kl_loss_type = ''kl'', kl_loss_coef = 0, sft_loss_coef = 1\<rparr>"

text \<open>
  Two examples of sequence length 3 with a response of length 1; the second is padded
  on the left.
\<close>

definition ex_batch :: tensordict where
  "ex_batch =
     \<lparr>batch_size = 2,
      entries = [(''responses'', [[7], [9]]),
                 (''input_ids'', [[5, 6, 7], [0, 8, 9]]),
                 (''attention_mask'', [[1, 1, 1], [0, 1, 1]]),
                 (''position_ids'', [[0, 1, 2], [0, 0, 1]]),
                 (''old_log_probs'', [[- 1], [- 2]]),
                 (''advantages'', [[1], [1]])]\<rparr>"

text \<open>One example whose response fills the whole sequence.\<close>

definition ex_batch_no_prompt :: tensordict where
  "ex_batch_no_prompt =
     \<lparr>batch_size = 1,
      entries = [(''responses'', [[5, 6]]),
                 (''input_ids'', [[5, 6]]),
                 (''attention_mask'', [[1, 1]]),
                 (''position_ids'', [[0, 1]])]\<rparr>"

text \<open>
  Two examples of sequence length 4 with a response span of length 3.  The response of
  the first has one token and two positions of padding on its right.
\<close>

definition ex_batch_right_pad :: tensordict where
  "ex_batch_right_pad =
     \<lparr>batch_size = 2,
      entries = [(''responses'', [[6, 0, 0], [8, 9, 4]]),
                 (''input_ids'', [[5, 6, 0, 0], [7, 8, 9, 4]]),
                 (''attention_mask'', [[1, 1, 0, 0], [1, 1, 1, 1]]),
                 (''position_ids'', [[0, 1, 1, 1], [0, 1, 2, 3]])]\<rparr>"

definition ex_meta :: meta_info where
  "ex_meta = \<lparr>meta_micro_batch_size = Some 1, meta_temperature = Some 1,
              meta_use_dynamic_bsz = Some True, meta_max_token_len = Some 4\<rparr>"

definition ex_data :: dataproto where
  "ex_data = \<lparr>batch = ex_batch, meta = ex_meta\<rparr>"

subsection \<open>The supervised loss in the words of the specification\<close>

text \<open>
  Written from the specification, to be compared with \<open>sft_loss_of\<close>: the masked
  mean of an example is the sum of the log-probabilities of its ground-truth tokens
  divided by their number, and the loss is the negated sum of the masked means divided by
  the number of examples that have at least one ground-truth token; both divisions are
  guarded by the same epsilon.
\<close>

definition masked_mean_spec :: "real list \<Rightarrow> real list \<Rightarrow> real" where
  "masked_mean_spec m l =
     sum_list (map snd (filter (\<lambda>(x, y). x \<noteq> 0) (zip m l)))
       / (real (length (filter (\<lambda>x. x \<noteq> 0) m)) + 1 / 1000000)"

definition sft_loss_spec :: "tensor \<Rightarrow> tensor \<Rightarrow> real" where
  "sft_loss_spec ground_truth_mask log_probs =
     - (sum_list (map (\<lambda>(m, l). masked_mean_spec m l) (zip ground_truth_mask log_probs))
          / (real (length (filter (list_ex (\<lambda>x. x \<noteq> 0)) ground_truth_mask)) + 1 / 1000000))"

text \<open>The per-example means as the code computes them (lines 560, 561).\<close>

definition token_mean_rows :: "tensor \<Rightarrow> tensor \<Rightarrow> real list" where
  "token_mean_rows ground_truth_mask_pr old_log_prob_pr =
     map (\<lambda>(m, l). sum_list (map (\<lambda>(x, y). x * y) (zip m l)) / (sum_list m + 1 / 1000000))
       (zip ground_truth_mask_pr old_log_prob_pr)"

text \<open>
  A batch for the supervised loss: the first example has one ground-truth token, the
  second has none.
\<close>

definition ex_sft_batch :: tensordict where
  "ex_sft_batch =
     \<lparr>batch_size = 2,
      entries = [(''ground_truth_mask_pr'', [[1, 0], [0, 0]]),
                 (''old_log_probs_pr'', [[- 2, - 1], [- 3, - 4]])]\<rparr>"

text \<open>
  Three examples with 3, 2 and 1 valid tokens: under a budget of 4 tokens the first-fit
  planner groups the first with the third and leaves the second alone.
\<close>

definition ex_batch3 :: tensordict where
  "ex_batch3 =
     \<lparr>batch_size = 3,
      entries = [(''responses'', [[7], [9], [4]]),
                 (''input_ids'', [[5, 6, 7], [0, 8, 9], [0, 0, 4]]),
                 (''attention_mask'', [[1, 1, 1], [0, 1, 1], [0, 0, 1]]),
                 (''position_ids'', [[0, 1, 2], [0, 0, 1], [0, 0, 0]])]\<rparr>"

definition ex_data3 :: dataproto where
  "ex_data3 = \<lparr>batch = ex_batch3, meta = ex_meta\<rparr>"

subsection \<open>Reading the metrics\<close>

text \<open>
  Observers used to state the properties of the accumulator: the sequence recorded under
  a name (empty when the name is absent or holds a plain number), whether a name holds
  no plain number, the names \<^verbatim>\<open>update_policy\<close> appends to once per micro-batch in
  mode \<^verbatim>\<open>normal\<close>, the name it records the gradient norm under, and the number of
  micro-batches a mini-batch is split into.
\<close>

definition series_of :: "metrics \<Rightarrow> string \<Rightarrow> fl list" where
  "series_of d k = (case map_of d k of Some (Series vs) \<Rightarrow> vs | _ \<Rightarrow> [])"

definition no_scalar :: "metrics \<Rightarrow> string \<Rightarrow> bool" where
  "no_scalar d k = (case map_of d k of Some (Scalar _) \<Rightarrow> False | _ \<Rightarrow> True)"









section \<open>Properties\<close>

subsection \<open>Evaluating the example\<close>

lemmas forward_eval = forward_micro_batch_def getitem_def self_use_remove_padding_def
  pack_inputs_def unpad_input_def nonzero_def index_first_axis_def roll_left_def
  packed_args_def squeeze0_def div_temperature_def packed_outputs_def
  logprobs_flat_def use_ulysses_sp_def pad_input_def index_put_def unflatten_def
  response_slice_def py_slice_def slice_bound_def ncols_def upt_rec

lemma ex_getitem:
  "getitem ex_batch ''responses'' = Inr [[7], [9]]"
  "getitem ex_batch ''input_ids'' = Inr [[5, 6, 7], [0, 8, 9]]"
  "getitem ex_batch ''attention_mask'' = Inr [[1, 1, 1], [0, 1, 1]]"
  "getitem ex_batch ''position_ids'' = Inr [[0, 1, 2], [0, 0, 1]]"
  by (simp_all add: getitem_def ex_batch_def)

lemma ex_remove_padding: "self_use_remove_padding ex_cfg"
  by (simp add: self_use_remove_padding_def ex_cfg_def)

lemma ex_pack_inputs:
  "pack_inputs ex_collab ex_cfg [[5, 6, 7], [0, 8, 9]] [[1, 1, 1], [0, 1, 1]]
     [[0, 1, 2], [0, 0, 1]]
     = Inr ([5, 6, 7, 8, 9], [0, 1, 2, 0, 1], [6, 7, 8, 9, 5], [0, 1, 2, 4, 5], 0)"
  by (simp add: pack_inputs_def unpad_input_def nonzero_def upt_rec index_first_axis_def
      roll_left_def use_ulysses_sp_def ex_cfg_def)

lemma ex_forward:
  "forward_micro_batch ex_collab ex_cfg (actor_module ex_collab False 1) ex_batch 1
     = Inr ([[7], [9]], [[- 1], [- 1]])"
  by (simp add: forward_eval ex_batch_def ex_cfg_def ex_collab_def)

subsection \<open>The full-logits forward under sequence parallelism\<close>

lemma forward_all_Inr_all:
  "forward_all f mbs = Inr rs \<Longrightarrow> list_all (\<lambda>mb. \<exists>r. f mb = Inr r) mbs \<and> length rs = length mbs"
  by (induction mbs arbitrary: rs) (auto split: sum.splits)

text \<open>
  Claim C8.  With remove-padding enabled and a sequence-parallel width above 1,
  \<^verbatim>\<open>_forward_micro_batch_2\<close> never returns: whenever the packing, the model call and
  the log-probabilities go through, the two gathers are followed by the always-false
  assertion (\<open>AssertionError\<close>), and an earlier failure is a failure as well.  Hence
  \<^verbatim>\<open>compute_all_logits\<close> never returns gathered logits in that configuration (with no
  micro-batch at all, the concatenation of nothing fails).
\<close>

theorem forward_micro_batch_2_sp_fails:
  assumes rm: "self_use_remove_padding cfg" and sp: "ulysses_sequence_parallel_size cfg > 1"
  shows "(\<forall>r. forward_micro_batch_2 ext cfg model_fn mb temperature \<noteq> Inr r) \<and>
         (\<forall>responses input_ids attention_mask position_ids ids pos rolled indices pad_size logits lp.
            getitem mb ''responses'' = Inr responses \<longrightarrow>
            getitem mb ''input_ids'' = Inr input_ids \<longrightarrow>
            getitem mb ''attention_mask'' = Inr attention_mask \<longrightarrow>
            getitem mb ''position_ids'' = Inr position_ids \<longrightarrow>
            pack_inputs ext cfg input_ids attention_mask position_ids
              = Inr (ids, pos, rolled, indices, pad_size) \<longrightarrow>
            squeeze0 (model_fn (packed_args ids pos)) = Inr logits \<longrightarrow>
            logprobs_flat ext (div_temperature temperature logits) rolled = Inr lp \<longrightarrow>
            forward_micro_batch_2 ext cfg model_fn mb temperature = Inl AssertionError) \<and>
         (\<forall>r. compute_all_logits ext cfg ps data \<noteq> Inr r)"
proof -
  have usp: "use_ulysses_sp cfg" using sp by (simp add: use_ulysses_sp_def)
  have never: "forward_micro_batch_2 ext cfg m b t \<noteq> Inr r" for m b t r
    using rm usp
    by (auto simp: forward_micro_batch_2_def Let_def split: sum.splits prod.splits)
  have a: "\<forall>r. forward_micro_batch_2 ext cfg model_fn mb temperature \<noteq> Inr r"
    using never by blast
  have b: "\<forall>responses input_ids attention_mask position_ids ids pos rolled indices pad_size logits lp.
            getitem mb ''responses'' = Inr responses \<longrightarrow>
            getitem mb ''input_ids'' = Inr input_ids \<longrightarrow>
            getitem mb ''attention_mask'' = Inr attention_mask \<longrightarrow>
            getitem mb ''position_ids'' = Inr position_ids \<longrightarrow>
            pack_inputs ext cfg input_ids attention_mask position_ids
              = Inr (ids, pos, rolled, indices, pad_size) \<longrightarrow>
            squeeze0 (model_fn (packed_args ids pos)) = Inr logits \<longrightarrow>
            logprobs_flat ext (div_temperature temperature logits) rolled = Inr lp \<longrightarrow>
            forward_micro_batch_2 ext cfg model_fn mb temperature = Inl AssertionError"
    using rm usp by (auto simp: forward_micro_batch_2_def Let_def)
  have c: "compute_all_logits ext cfg ps data \<noteq> Inr r" for r
  proof
    assume ok: "compute_all_logits ext cfg ps data = Inr r"
    then obtain temperature mbs outs where
      fa: "forward_all (\<lambda>mb. forward_micro_batch_2 ext cfg (actor_module ext False ps) mb temperature)
             mbs = Inr outs"
      and tc: "torch_concat (map (\<lambda>(_, _, all_logits). all_logits) outs) \<noteq> Inl RuntimeError"
      by (auto simp: compute_all_logits_def split: sum.splits prod.splits if_splits)
    from forward_all_Inr_all[OF fa] never have "mbs = []"
      by (cases mbs) auto
    with fa have "outs = []" by simp
    with tc show False by (simp add: torch_concat_def)
  qed
  from a b c show ?thesis by blast
qed

theorem forward_micro_batch_2_sp_fails_witness:
  "self_use_remove_padding (ex_cfg\<lparr>ulysses_sequence_parallel_size := 2\<rparr>) \<and>
   ulysses_sequence_parallel_size (ex_cfg\<lparr>ulysses_sequence_parallel_size := 2\<rparr>) > 1 \<and>
   forward_micro_batch_2 ex_collab (ex_cfg\<lparr>ulysses_sequence_parallel_size := 2\<rparr>)
     (actor_module ex_collab False 1) ex_batch 1 = Inl AssertionError \<and>
   compute_all_logits ex_collab (ex_cfg\<lparr>ulysses_sequence_parallel_size := 2\<rparr>) 1 ex_data
     \<noteq> Inr []"
proof -
  let ?cfg = "ex_cfg\<lparr>ulysses_sequence_parallel_size := 2\<rparr>"
  let ?m = "actor_module ex_collab False 1"
  have h1: "self_use_remove_padding ?cfg"
    by (simp add: self_use_remove_padding_def ex_cfg_def)
  have h2: "ulysses_sequence_parallel_size ?cfg > 1"
    by (simp add: ex_cfg_def)
  note T = forward_micro_batch_2_sp_fails[OF h1 h2, of ex_collab ?m ex_batch 1 1 ex_data]
  have g1: "getitem ex_batch ''responses'' = Inr [[7], [9]]"
    and g2: "getitem ex_batch ''input_ids'' = Inr [[5, 6, 7], [0, 8, 9]]"
    and g3: "getitem ex_batch ''attention_mask'' = Inr [[1, 1, 1], [0, 1, 1]]"
    and g4: "getitem ex_batch ''position_ids'' = Inr [[0, 1, 2], [0, 0, 1]]"
    by (simp_all add: getitem_def ex_batch_def)
  have nz: "nonzero [1, 1, 1, 0, 1, 1] = [0, 1, 2, 4, 5]"
    by (simp add: nonzero_def upt_rec)
  have pk: "pack_inputs ex_collab ?cfg [[5, 6, 7], [0, 8, 9]] [[1, 1, 1], [0, 1, 1]]
              [[0, 1, 2], [0, 0, 1]]
            = Inr ([5, 6, 7, 8, 9], [0, 1, 2, 0, 1], [6, 7, 8, 9, 5], [0, 1, 2, 4, 5], 0)"
    by (simp add: pack_inputs_def unpad_input_def nz index_first_axis_def roll_left_def
        use_ulysses_sp_def ex_cfg_def ex_collab_def)
  have sq: "squeeze0 (?m (packed_args [5, 6, 7, 8, 9] [0, 1, 2, 0, 1]))
            = Inr [[5, 1], [6, 1], [7, 1], [8, 1], [9, 1]]"
    by (simp add: squeeze0_def packed_args_def ex_collab_def)
  have lp: "logprobs_flat ex_collab (div_temperature 1 [[5, 1], [6, 1], [7, 1], [8, 1], [9, 1]])
              [6, 7, 8, 9, 5] = Inr [- 1, - 1, - 1, - 1, 4]"
    by (simp add: logprobs_flat_def div_temperature_def ex_collab_def)
  from T g1 g2 g3 g4 pk sq lp
  have "forward_micro_batch_2 ex_collab ?cfg ?m ex_batch 1 = Inl AssertionError"
    by blast
  with h1 h2 T show ?thesis by blast
qed

subsection \<open>The response span\<close>

lemma slice_bound_neg: "i < 0 \<Longrightarrow> slice_bound (int n) i = n - nat (- i)"
  by (auto simp: slice_bound_def max_def)

lemma py_slice_response:
  "py_slice (- int R - 1) (- 1) xs =
     (if R < length xs then take R (drop (length xs - R - 1) xs) else take (length xs - 1) xs)"
proof -
  have lo: "slice_bound (int (length xs)) (- int R - 1) = length xs - (R + 1)"
    by (simp add: slice_bound_neg nat_add_distrib)
  have hi: "slice_bound (int (length xs)) (- 1) = length xs - 1"
    by (simp add: slice_bound_neg)
  show ?thesis
    by (cases "R < length xs") (simp_all add: py_slice_def lo hi Let_def)
qed

lemma response_slice_rows:
  assumes "list_all (\<lambda>row. length row = S) t" and "R < S"
  shows "response_slice R t = map (\<lambda>row. take R (drop (S - R - 1) row)) t"
  using assms by (simp add: response_slice_def py_slice_response list_all_iff)

lemma length_fold_update:
  "length (fold (\<lambda>(i, v) acc. acc[i := v]) ps out) = length out"
  by (induction ps arbitrary: out) (auto split: prod.splits)

lemma length_index_put: "length (index_put out idx vals) = length out"
  by (simp add: index_put_def length_fold_update)

lemma unflatten_shape:
  assumes "length flat = n * s"
  shows "length (unflatten n s flat) = n \<and> list_all (\<lambda>r. length r = s) (unflatten n s flat)"
proof -
  have "s \<le> n * s - b * s" if "b < n" for b
  proof -
    have "n * s - b * s = (n - b) * s" by (simp add: diff_mult_distrib)
    moreover have "1 \<le> n - b" using that by simp
    ultimately show ?thesis by (metis mult_le_mono1 nat_mult_1)
  qed
  then show ?thesis using assms by (auto simp: unflatten_def list_all_iff)
qed

lemma pad_input_shape:
  "pad_input z vals idx n s = Inr t \<Longrightarrow> length t = n \<and> list_all (\<lambda>r. length r = s) t"
  by (auto simp: pad_input_def length_index_put unflatten_shape split: if_splits)

lemma packed_outputs_shape:
  "packed_outputs ext cfg logits rolled indices pad_size n s = Inr (fe, fl) \<Longrightarrow>
     length fe = n \<and> list_all (\<lambda>r. length r = s) fe \<and>
     length fl = n \<and> list_all (\<lambda>r. length r = s) fl"
  by (auto simp: packed_outputs_def Let_def split: sum.splits dest: pad_input_shape)

lemma slice_nth:
  "j < R \<Longrightarrow> R < length row \<Longrightarrow>
     take R (drop (length row - R - 1) row) ! j = row ! (length row - R - 1 + j)"
  by simp

subsection \<open>Scattering the packed stream back\<close>

lemma fold_update_other:
  "q \<notin> fst ` set ps \<Longrightarrow> fold (\<lambda>(i, v) acc. acc[i := v]) ps out ! q = out ! q"
  by (induction ps arbitrary: out) auto

lemma index_put_other: "q \<notin> set idx \<Longrightarrow> index_put out idx vals ! q = out ! q"
proof -
  assume "q \<notin> set idx"
  then have "q \<notin> fst ` set (zip idx vals)"
    by (auto dest: set_zip_leftD)
  then show ?thesis
    by (simp add: index_put_def fold_update_other)
qed

lemma index_put_nth:
  "distinct idx \<Longrightarrow> length vals = length idx \<Longrightarrow> k < length idx \<Longrightarrow> idx ! k < length out
     \<Longrightarrow> index_put out idx vals ! (idx ! k) = vals ! k"
proof (induction idx arbitrary: vals out k)
  case Nil
  then show ?case by simp
next
  case (Cons i idx)
  then obtain v vs where vals: "vals = v # vs"
    by (cases vals) auto
  have step: "index_put out (i # idx) (v # vs) = index_put (out[i := v]) idx vs"
    by (simp add: index_put_def)
  show ?case
  proof (cases k)
    case 0
    have "i \<notin> set idx" using Cons.prems(1) by simp
    then have "index_put (out[i := v]) idx vs ! i = out[i := v] ! i"
      by (rule index_put_other)
    with 0 Cons.prems(4) show ?thesis
      by (simp add: vals step)
  next
    case (Suc k')
    have "index_put (out[i := v]) idx vs ! (idx ! k') = vs ! k'"
      using Cons.prems Suc vals by (intro Cons.IH) auto
    with Suc show ?thesis
      by (simp add: vals step)
  qed
qed

lemma nonzero_distinct: "distinct (nonzero xs)"
  by (simp add: nonzero_def)

lemma nonzero_set: "set (nonzero xs) = {q. q < length xs \<and> xs ! q \<noteq> 0}"
  by (auto simp: nonzero_def)

lemma nonzero_split:
  assumes "q < length xs"
  shows "nonzero xs = filter (\<lambda>i. xs ! i \<noteq> 0) [0..<q]
           @ filter (\<lambda>i. xs ! i \<noteq> 0) [q..<length xs]"
proof -
  have "[0..<length xs] = [0..<q] @ [q..<length xs]"
    using assms upt_add_eq_append[of 0 q "length xs - q"] by simp
  then show ?thesis
    by (simp add: nonzero_def del: upt.simps flip: filter_append)
qed

lemma nonzero_slot:
  assumes "q < length xs" and "xs ! q \<noteq> 0"
  shows "length (filter (\<lambda>i. xs ! i \<noteq> 0) [0..<q]) < length (nonzero xs)"
    and "nonzero xs ! length (filter (\<lambda>i. xs ! i \<noteq> 0) [0..<q]) = q"
proof -
  have "[q..<length xs] = q # [Suc q..<length xs]"
    using assms(1) by (simp add: upt_conv_Cons)
  then have s: "nonzero xs = filter (\<lambda>i. xs ! i \<noteq> 0) [0..<q]
                  @ q # filter (\<lambda>i. xs ! i \<noteq> 0) [Suc q..<length xs]"
    using nonzero_split[OF assms(1)] assms(2) by simp
  show "length (filter (\<lambda>i. xs ! i \<noteq> 0) [0..<q]) < length (nonzero xs)"
    by (subst s) simp
  show "nonzero xs ! length (filter (\<lambda>i. xs ! i \<noteq> 0) [0..<q]) = q"
    by (subst s) (simp add: nth_append)
qed

lemma nonzero_slot_next:
  assumes "Suc q < length xs" and "xs ! q \<noteq> 0" and "xs ! Suc q \<noteq> 0"
  shows "Suc (length (filter (\<lambda>i. xs ! i \<noteq> 0) [0..<q])) < length (nonzero xs)"
    and "nonzero xs ! Suc (length (filter (\<lambda>i. xs ! i \<noteq> 0) [0..<q])) = Suc q"
proof -
  have e: "length (filter (\<lambda>i. xs ! i \<noteq> 0) [0..<Suc q])
           = Suc (length (filter (\<lambda>i. xs ! i \<noteq> 0) [0..<q]))"
    using assms(2) by simp
  show "Suc (length (filter (\<lambda>i. xs ! i \<noteq> 0) [0..<q])) < length (nonzero xs)"
    using nonzero_slot(1)[OF assms(1) assms(3)] by (simp only: e)
  show "nonzero xs ! Suc (length (filter (\<lambda>i. xs ! i \<noteq> 0) [0..<q])) = Suc q"
    using nonzero_slot(2)[OF assms(1) assms(3)] by (simp only: e)
qed

lemma roll_left_nth: "Suc k < length xs \<Longrightarrow> roll_left xs ! k = xs ! Suc k"
  by (cases xs) (simp_all add: roll_left_def nth_append)

lemma concat_rect_length:
  "list_all (\<lambda>r. length r = S) t \<Longrightarrow> length (concat t) = length t * S"
  by (induction t) auto

lemma concat_rect_nth:
  "list_all (\<lambda>r. length r = S) t \<Longrightarrow> i < length t \<Longrightarrow> p < S
     \<Longrightarrow> concat t ! (i * S + p) = t ! i ! p"
proof (induction t arbitrary: i)
  case Nil
  then show ?case by simp
next
  case (Cons r t)
  show ?case
  proof (cases i)
    case 0
    with Cons.prems show ?thesis by (simp add: nth_append)
  next
    case (Suc i')
    have "concat t ! (i' * S + p) = t ! i' ! p"
      using Cons.prems Suc by (intro Cons.IH) auto
    moreover have "Suc i' * S + p = length r + (i' * S + p)"
      using Cons.prems(1) by simp
    ultimately show ?thesis
      using Suc by (simp only: concat.simps nth_append_length_plus nth_Cons_Suc)
  qed
qed

lemma flat_index_bound:
  assumes "i < n" and "p < (s :: nat)"
  shows "i * s + p < n * s"
proof -
  have "i * s + p < i * s + s" using assms(2) by simp
  also have "\<dots> = Suc i * s" by simp
  also have "\<dots> \<le> n * s" using assms(1) by (intro mult_le_mono1) simp
  finally show ?thesis .
qed

lemma unflatten_nth:
  assumes "length flat = n * s" and "i < n" and "p < s"
  shows "unflatten n s flat ! i ! p = flat ! (i * s + p)"
proof -
  have "i * s + p < n * s" by (rule flat_index_bound[OF assms(2) assms(3)])
  then have "i * s \<le> length flat" using assms(1) by linarith
  then show ?thesis
    using assms by (simp add: unflatten_def)
qed

lemma ncols_rect:
  "list_all (\<lambda>r. length r = S) t \<Longrightarrow> t \<noteq> [] \<Longrightarrow> ncols t = S"
  by (cases t) (simp_all add: ncols_def)

lemma pack_inputs_no_sp:
  assumes "\<not> use_ulysses_sp cfg"
    and "pack_inputs ext cfg input_ids attention_mask position_ids
           = Inr (ids, pos, rolled, indices, pad_size)"
  shows "indices = nonzero (concat attention_mask)"
    and "ids = map ((!) (concat input_ids)) indices"
    and "rolled = roll_left ids"
  using assms
  by (auto simp: pack_inputs_def unpad_input_def index_first_axis_def Let_def
      split: sum.splits if_splits)

lemma packed_outputs_no_sp:
  assumes "\<not> use_ulysses_sp cfg"
    and "packed_outputs ext cfg logits rolled indices pad_size n s = Inr (fe, fl)"
  shows "length logits = length rolled"
    and "length logits = length indices"
    and "fe = unflatten n s (index_put (replicate (n * s) 0) indices
                               (map (entropy_from_logits ext) logits))"
    and "fl = unflatten n s (index_put (replicate (n * s) 0) indices
                               (map (\<lambda>(l, y). logprobs_from_logits ext l y) (zip logits rolled)))"
  using assms
  by (auto simp: packed_outputs_def logprobs_flat_def pad_input_def Let_def
      split: sum.splits if_splits)

text \<open>
  What the scattered tensors hold at position \<open>p\<close> of example \<open>i\<close>: zero at a
  position that is not attended; at an attended one the entropy of the logits of its
  place in the stream and the log-probability, from these logits, of the next token of
  the stream, which is the next token of the example when that one is attended too.
\<close>

lemma packed_value_at:
  assumes nsp: "\<not> use_ulysses_sp cfg"
    and pk: "pack_inputs ext cfg input_ids attention_mask position_ids
               = Inr (ids, pos, rolled, indices, pad_size)"
    and po: "packed_outputs ext cfg logits rolled indices pad_size
               (length input_ids) (ncols input_ids) = Inr (fe, fl)"
    and ri: "list_all (\<lambda>r. length r = ncols input_ids) input_ids"
    and rm: "list_all (\<lambda>r. length r = ncols input_ids) attention_mask"
    and lm: "length attention_mask = length input_ids"
    and i: "i < length input_ids" and p: "p < ncols input_ids"
  shows "attention_mask ! i ! p = 0 \<longrightarrow> fe ! i ! p = 0 \<and> fl ! i ! p = 0"
    and "attention_mask ! i ! p \<noteq> 0 \<longrightarrow>
           packed_slot attention_mask i p < length logits \<and>
           ids ! packed_slot attention_mask i p = input_ids ! i ! p \<and>
           fe ! i ! p = entropy_from_logits ext (logits ! packed_slot attention_mask i p) \<and>
           fl ! i ! p = logprobs_from_logits ext (logits ! packed_slot attention_mask i p)
                          (rolled ! packed_slot attention_mask i p) \<and>
           (Suc p < ncols input_ids \<longrightarrow> attention_mask ! i ! Suc p \<noteq> 0 \<longrightarrow>
              rolled ! packed_slot attention_mask i p = input_ids ! i ! Suc p)"
proof -
  let ?N = "length input_ids" and ?S = "ncols input_ids"
  let ?m = "concat attention_mask"
  let ?q = "i * ?S + p"
  let ?k = "packed_slot attention_mask i p"
  let ?lp = "map (\<lambda>(l, y). logprobs_from_logits ext l y) (zip logits rolled)"
  let ?en = "map (entropy_from_logits ext) logits"
  note pi = pack_inputs_no_sp[OF nsp pk]
  note pq = packed_outputs_no_sp[OF nsp po]
  have am_ne: "attention_mask \<noteq> []" using i lm by auto
  have nc: "ncols attention_mask = ?S" by (rule ncols_rect[OF rm am_ne])
  have k: "?k = length (filter (\<lambda>q. ?m ! q \<noteq> 0) [0..<?q])"
    by (simp add: packed_slot_def nc)
  have lenm: "length ?m = ?N * ?S" using concat_rect_length[OF rm] lm by simp
  have leni: "length (concat input_ids) = ?N * ?S" using concat_rect_length[OF ri] by simp
  have qb: "?q < ?N * ?S" by (rule flat_index_bound[OF i p])
  have mq: "?m ! ?q = attention_mask ! i ! p"
    using concat_rect_nth[OF rm _ p, of i] i lm by simp
  have fe: "fe ! i ! p = index_put (replicate (?N * ?S) 0) indices ?en ! ?q"
    by (simp add: pq(3) unflatten_nth[OF _ i p] length_index_put)
  have fl: "fl ! i ! p = index_put (replicate (?N * ?S) 0) indices ?lp ! ?q"
    by (simp add: pq(4) unflatten_nth[OF _ i p] length_index_put)
  show "attention_mask ! i ! p = 0 \<longrightarrow> fe ! i ! p = 0 \<and> fl ! i ! p = 0"
  proof
    assume z: "attention_mask ! i ! p = 0"
    then have "?q \<notin> set indices"
      using mq by (simp add: pi(1) nonzero_set)
    then show "fe ! i ! p = 0 \<and> fl ! i ! p = 0"
      using qb by (simp add: fe fl index_put_other)
  qed
  show "attention_mask ! i ! p \<noteq> 0 \<longrightarrow>
           ?k < length logits \<and> ids ! ?k = input_ids ! i ! p \<and>
           fe ! i ! p = entropy_from_logits ext (logits ! ?k) \<and>
           fl ! i ! p = logprobs_from_logits ext (logits ! ?k) (rolled ! ?k) \<and>
           (Suc p < ?S \<longrightarrow> attention_mask ! i ! Suc p \<noteq> 0 \<longrightarrow>
              rolled ! ?k = input_ids ! i ! Suc p)"
  proof (intro impI conjI)
    assume nz: "attention_mask ! i ! p \<noteq> 0"
    have qm: "?q < length ?m" and mnz: "?m ! ?q \<noteq> 0"
      using qb lenm mq nz by simp_all
    have kl: "?k < length indices" and ik: "indices ! ?k = ?q"
      using nonzero_slot[OF qm mnz] by (simp_all add: pi(1) k)
    show kb: "?k < length logits" using kl pq(2) by simp
    have kr: "?k < length rolled" using kb pq(1) by simp
    show "ids ! ?k = input_ids ! i ! p"
      using kl ik concat_rect_nth[OF ri i p] by (simp add: pi(2))
    have d: "distinct indices" by (simp add: pi(1) nonzero_distinct)
    have "index_put (replicate (?N * ?S) 0) indices ?en ! (indices ! ?k) = ?en ! ?k"
      using kl qb pq(2) by (intro index_put_nth[OF d]) (simp_all add: ik)
    then show "fe ! i ! p = entropy_from_logits ext (logits ! ?k)"
      using kb by (simp add: fe ik)
    have "index_put (replicate (?N * ?S) 0) indices ?lp ! (indices ! ?k) = ?lp ! ?k"
      using kl qb pq(1) pq(2) by (intro index_put_nth[OF d]) (simp_all add: ik)
    then show "fl ! i ! p = logprobs_from_logits ext (logits ! ?k) (rolled ! ?k)"
      using kb kr by (simp add: fl ik)
    assume sp: "Suc p < ?S" and nz': "attention_mask ! i ! Suc p \<noteq> 0"
    have sq: "Suc ?q = i * ?S + Suc p" by simp
    have sqm: "Suc ?q < length ?m"
      using flat_index_bound[OF i sp] lenm by (simp only: sq)
    have msq: "?m ! Suc ?q \<noteq> 0"
      using concat_rect_nth[OF rm _ sp, of i] i lm nz' by (simp only: sq) simp
    have skl: "Suc ?k < length indices" and isk: "indices ! Suc ?k = Suc ?q"
      using nonzero_slot_next[OF sqm mnz msq] by (simp_all add: pi(1) k)
    have "rolled ! ?k = ids ! Suc ?k"
      using skl by (simp add: pi(3) pi(2) roll_left_nth)
    also have "\<dots> = concat input_ids ! Suc ?q"
      using skl isk by (simp add: pi(2))
    also have "\<dots> = input_ids ! i ! Suc p"
      using concat_rect_nth[OF ri i sp] by (simp only: sq)
    finally show "rolled ! ?k = input_ids ! i ! Suc p" .
  qed
qed

lemma div_temperature_nth:
  "k < length out \<Longrightarrow> div_temperature temperature out ! k = map (\<lambda>x. x / temperature) (out ! k)"
  by (simp add: div_temperature_def)

lemma logprobs_rows_shape:
  assumes "logprobs_rows ext logits labels = Inr lp"
  shows "length logits = length labels"
    and "i < length labels \<Longrightarrow> length (logits ! i) = length (labels ! i)"
proof -
  from assms have ml: "map length logits = map length labels"
    by (auto simp: logprobs_rows_def split: if_splits)
  show ll: "length logits = length labels"
    using ml by (rule map_eq_imp_length_eq)
  show "length (logits ! i) = length (labels ! i)" if "i < length labels"
  proof -
    have "map length logits ! i = map length labels ! i"
      by (simp only: ml)
    then show ?thesis
      using that ll by simp
  qed
qed

lemma logprobs_rows_nth:
  assumes "logprobs_rows ext logits labels = Inr lp"
    and "i < length labels" and "j < length (labels ! i)"
  shows "lp ! i ! j = logprobs_from_logits ext (logits ! i ! j) (labels ! i ! j)"
proof -
  from assms(1) have lp: "lp = map (\<lambda>(ls, ys). map (\<lambda>(l, y). logprobs_from_logits ext l y) (zip ls ys))
                    (zip logits labels)"
    by (auto simp: logprobs_rows_def split: if_splits)
  note sh = logprobs_rows_shape[OF assms(1)]
  show ?thesis
    using sh(1) sh(2)[OF assms(2)] assms(2) assms(3) by (simp add: lp)
qed

lemma packed_response_column:
  assumes nsp: "\<not> use_ulysses_sp cfg"
    and pk: "pack_inputs ext cfg input_ids attention_mask position_ids
               = Inr (ids, pos, rolled, indices, pad_size)"
    and po: "packed_outputs ext cfg (div_temperature temperature out) rolled indices pad_size
               (length input_ids) (ncols input_ids) = Inr (fe, fl)"
    and ri: "list_all (\<lambda>r. length r = ncols input_ids) input_ids"
    and rm: "list_all (\<lambda>r. length r = ncols input_ids) attention_mask"
    and lm: "length attention_mask = length input_ids"
    and i: "i < length input_ids" and p: "Suc p < ncols input_ids"
  shows "attention_mask ! i ! p = 0 \<longrightarrow> fe ! i ! p = 0 \<and> fl ! i ! p = 0"
    and "attention_mask ! i ! p \<noteq> 0 \<longrightarrow>
           ids ! packed_slot attention_mask i p = input_ids ! i ! p \<and>
           fe ! i ! p = entropy_from_logits ext
                          (map (\<lambda>x. x / temperature) (out ! packed_slot attention_mask i p)) \<and>
           fl ! i ! p = logprobs_from_logits ext
                          (map (\<lambda>x. x / temperature) (out ! packed_slot attention_mask i p))
                          (rolled ! packed_slot attention_mask i p) \<and>
           (attention_mask ! i ! Suc p \<noteq> 0 \<longrightarrow>
              rolled ! packed_slot attention_mask i p = input_ids ! i ! Suc p)"
proof -
  have p': "p < ncols input_ids" using p by simp
  note v = packed_value_at[OF nsp pk po ri rm lm i p']
  show "attention_mask ! i ! p = 0 \<longrightarrow> fe ! i ! p = 0 \<and> fl ! i ! p = 0"
    by (rule v(1))
  show "attention_mask ! i ! p \<noteq> 0 \<longrightarrow>
           ids ! packed_slot attention_mask i p = input_ids ! i ! p \<and>
           fe ! i ! p = entropy_from_logits ext
                          (map (\<lambda>x. x / temperature) (out ! packed_slot attention_mask i p)) \<and>
           fl ! i ! p = logprobs_from_logits ext
                          (map (\<lambda>x. x / temperature) (out ! packed_slot attention_mask i p))
                          (rolled ! packed_slot attention_mask i p) \<and>
           (attention_mask ! i ! Suc p \<noteq> 0 \<longrightarrow>
              rolled ! packed_slot attention_mask i p = input_ids ! i ! Suc p)"
  proof
    assume nz: "attention_mask ! i ! p \<noteq> 0"
    note w = v(2)[rule_format, OF nz]
    have kb: "packed_slot attention_mask i p < length out"
      using w by (simp add: div_temperature_def)
    show "ids ! packed_slot attention_mask i p = input_ids ! i ! p \<and>
           fe ! i ! p = entropy_from_logits ext
                          (map (\<lambda>x. x / temperature) (out ! packed_slot attention_mask i p)) \<and>
           fl ! i ! p = logprobs_from_logits ext
                          (map (\<lambda>x. x / temperature) (out ! packed_slot attention_mask i p))
                          (rolled ! packed_slot attention_mask i p) \<and>
           (attention_mask ! i ! Suc p \<noteq> 0 \<longrightarrow>
              rolled ! packed_slot attention_mask i p = input_ids ! i ! Suc p)"
      using w p by (simp add: div_temperature_nth[OF kb])
  qed
qed

text \<open>
  Claim C3, amended.  When the response is shorter than the sequence (\<open>R < S\<close>), the
  packed path returns, for the entropy and for the log-probabilities, exactly the columns
  \<open>S - R - 1\<close> up to but excluding \<open>S - 1\<close> of the tensors scattered back to the
  \<open>(N, S)\<close> layout: \<open>R\<close> columns, column \<open>j\<close> read at position
  \<open>S - R - 1 + j\<close>.  Without sequence parallelism, on a rectangular batch: where that
  position is not attended the column holds zero; where it is attended the column holds
  the entropy of the temperature-scaled logits of that position and the
  log-probability, from these logits, of the label the roll gives the position, the next
  token of the packed stream; where the next position \<open>S - R + j\<close> is attended too and
  holds response token \<open>j\<close>, this is the log-probability of predicting response token
  \<open>j\<close> of example \<open>i\<close>.  The path without packing takes the same columns of the
  temperature-scaled logits and computes the entropies and the log-probabilities of the
  responses from them: row \<open>i\<close>, column \<open>j\<close> holds the log-probability of response
  token \<open>j\<close> from the logits of position \<open>S - R - 1 + j\<close>, at every column.
\<close>

theorem response_span_slice:
  assumes g1: "getitem mb ''responses'' = Inr responses"
    and g2: "getitem mb ''input_ids'' = Inr input_ids"
    and g3: "getitem mb ''attention_mask'' = Inr attention_mask"
    and g4: "getitem mb ''position_ids'' = Inr position_ids"
    and RS: "ncols responses < ncols input_ids"
  shows "(self_use_remove_padding cfg \<longrightarrow>
          pack_inputs ext cfg input_ids attention_mask position_ids
            = Inr (ids, pos, rolled, indices, pad_size) \<longrightarrow>
          squeeze0 (model_fn (packed_args ids pos)) = Inr out \<longrightarrow>
          packed_outputs ext cfg (div_temperature temperature out) rolled indices pad_size
            (length input_ids) (ncols input_ids) = Inr (full_entropy, full_log_probs) \<longrightarrow>
          forward_micro_batch ext cfg model_fn mb temperature
            = Inr (map (\<lambda>row. take (ncols responses)
                          (drop (ncols input_ids - ncols responses - 1) row)) full_entropy,
                   map (\<lambda>row. take (ncols responses)
                          (drop (ncols input_ids - ncols responses - 1) row)) full_log_probs) \<and>
          length full_entropy = length input_ids \<and>
          length full_log_probs = length input_ids \<and>
          list_all (\<lambda>row. length row = ncols input_ids) full_entropy \<and>
          list_all (\<lambda>row. length row = ncols input_ids) full_log_probs \<and>
          (\<forall>entropy log_probs.
             forward_micro_batch ext cfg model_fn mb temperature = Inr (entropy, log_probs) \<longrightarrow>
             length entropy = length input_ids \<and> length log_probs = length input_ids \<and>
             (\<forall>i < length input_ids.
                length (entropy ! i) = ncols responses \<and>
                length (log_probs ! i) = ncols responses \<and>
                (\<forall>j < ncols responses.
                   entropy ! i ! j
                     = full_entropy ! i ! (ncols input_ids - ncols responses - 1 + j) \<and>
                   log_probs ! i ! j
                     = full_log_probs ! i ! (ncols input_ids - ncols responses - 1 + j) \<and>
                   (\<not> use_ulysses_sp cfg \<longrightarrow>
                    list_all (\<lambda>r. length r = ncols input_ids) input_ids \<longrightarrow>
                    list_all (\<lambda>r. length r = ncols input_ids) attention_mask \<longrightarrow>
                    length attention_mask = length input_ids \<longrightarrow>
                      (attention_mask ! i ! (ncols input_ids - ncols responses - 1 + j) = 0 \<longrightarrow>
                         entropy ! i ! j = 0 \<and> log_probs ! i ! j = 0) \<and>
                      (attention_mask ! i ! (ncols input_ids - ncols responses - 1 + j) \<noteq> 0 \<longrightarrow>
                         ids ! packed_slot attention_mask i
                                 (ncols input_ids - ncols responses - 1 + j)
                           = input_ids ! i ! (ncols input_ids - ncols responses - 1 + j) \<and>
                         entropy ! i ! j
                           = entropy_from_logits ext
                               (map (\<lambda>x. x / temperature)
                                  (out ! packed_slot attention_mask i
                                           (ncols input_ids - ncols responses - 1 + j))) \<and>
                         log_probs ! i ! j
                           = logprobs_from_logits ext
                               (map (\<lambda>x. x / temperature)
                                  (out ! packed_slot attention_mask i
                                           (ncols input_ids - ncols responses - 1 + j)))
                               (rolled ! packed_slot attention_mask i
                                           (ncols input_ids - ncols responses - 1 + j)) \<and>
                         (attention_mask ! i ! (ncols input_ids - ncols responses + j) \<noteq> 0 \<longrightarrow>
                          input_ids ! i ! (ncols input_ids - ncols responses + j)
                            = responses ! i ! j \<longrightarrow>
                            log_probs ! i ! j
                              = logprobs_from_logits ext
                                  (map (\<lambda>x. x / temperature)
                                     (out ! packed_slot attention_mask i
                                              (ncols input_ids - ncols responses - 1 + j)))
                                  (responses ! i ! j)))))))) \<and>
         (\<not> self_use_remove_padding cfg \<longrightarrow>
          model_fn \<lparr>fw_input_ids = input_ids, fw_attention_mask = Some attention_mask,
                    fw_position_ids = position_ids, fw_use_cache = False\<rparr> = dense_out \<longrightarrow>
          list_all (\<lambda>row. length row = ncols input_ids) dense_out \<longrightarrow>
          logprobs_rows ext
            (map (\<lambda>row. take (ncols responses)
                    (drop (ncols input_ids - ncols responses - 1) row))
               (map (div_temperature temperature) dense_out)) responses = Inr lp \<longrightarrow>
          forward_micro_batch ext cfg model_fn mb temperature
            = Inr (map (map (entropy_from_logits ext))
                     (map (\<lambda>row. take (ncols responses)
                             (drop (ncols input_ids - ncols responses - 1) row))
                        (map (div_temperature temperature) dense_out)),
                   lp) \<and>
          (\<forall>i < length responses. \<forall>j < ncols responses.
             lp ! i ! j
               = logprobs_from_logits ext
                   (map (\<lambda>x. x / temperature)
                      (dense_out ! i ! (ncols input_ids - ncols responses - 1 + j)))
                   (responses ! i ! j)))"
proof (intro conjI impI)
  assume rm: "self_use_remove_padding cfg"
    and pk: "pack_inputs ext cfg input_ids attention_mask position_ids
           = Inr (ids, pos, rolled, indices, pad_size)"
    and sq: "squeeze0 (model_fn (packed_args ids pos)) = Inr out"
    and po: "packed_outputs ext cfg (div_temperature temperature out) rolled indices pad_size
               (length input_ids) (ncols input_ids) = Inr (full_entropy, full_log_probs)"
  note sh = packed_outputs_shape[OF po]
  show len_e: "length full_entropy = length input_ids"
    and len_l: "length full_log_probs = length input_ids"
    and fe_rows: "list_all (\<lambda>row. length row = ncols input_ids) full_entropy"
    and fl_rows: "list_all (\<lambda>row. length row = ncols input_ids) full_log_probs"
    using sh by simp_all
  have fw0: "forward_micro_batch ext cfg model_fn mb temperature
            = Inr (response_slice (ncols responses) full_entropy,
                   response_slice (ncols responses) full_log_probs)"
    using rm g1 g2 g3 g4 pk sq po by (simp add: forward_micro_batch_def)
  show fw: "forward_micro_batch ext cfg model_fn mb temperature
            = Inr (map (\<lambda>row. take (ncols responses)
                          (drop (ncols input_ids - ncols responses - 1) row)) full_entropy,
                   map (\<lambda>row. take (ncols responses)
                          (drop (ncols input_ids - ncols responses - 1) row)) full_log_probs)"
    unfolding fw0
    by (simp only: response_slice_rows[OF fe_rows RS] response_slice_rows[OF fl_rows RS])
  show "\<forall>entropy log_probs.
             forward_micro_batch ext cfg model_fn mb temperature = Inr (entropy, log_probs) \<longrightarrow>
             length entropy = length input_ids \<and> length log_probs = length input_ids \<and>
             (\<forall>i < length input_ids.
                length (entropy ! i) = ncols responses \<and>
                length (log_probs ! i) = ncols responses \<and>
                (\<forall>j < ncols responses.
                   entropy ! i ! j
                     = full_entropy ! i ! (ncols input_ids - ncols responses - 1 + j) \<and>
                   log_probs ! i ! j
                     = full_log_probs ! i ! (ncols input_ids - ncols responses - 1 + j) \<and>
                   (\<not> use_ulysses_sp cfg \<longrightarrow>
                    list_all (\<lambda>r. length r = ncols input_ids) input_ids \<longrightarrow>
                    list_all (\<lambda>r. length r = ncols input_ids) attention_mask \<longrightarrow>
                    length attention_mask = length input_ids \<longrightarrow>
                      (attention_mask ! i ! (ncols input_ids - ncols responses - 1 + j) = 0 \<longrightarrow>
                         entropy ! i ! j = 0 \<and> log_probs ! i ! j = 0) \<and>
                      (attention_mask ! i ! (ncols input_ids - ncols responses - 1 + j) \<noteq> 0 \<longrightarrow>
                         ids ! packed_slot attention_mask i
                                 (ncols input_ids - ncols responses - 1 + j)
                           = input_ids ! i ! (ncols input_ids - ncols responses - 1 + j) \<and>
                         entropy ! i ! j
                           = entropy_from_logits ext
                               (map (\<lambda>x. x / temperature)
                                  (out ! packed_slot attention_mask i
                                           (ncols input_ids - ncols responses - 1 + j))) \<and>
                         log_probs ! i ! j
                           = logprobs_from_logits ext
                               (map (\<lambda>x. x / temperature)
                                  (out ! packed_slot attention_mask i
                                           (ncols input_ids - ncols responses - 1 + j)))
                               (rolled ! packed_slot attention_mask i
                                           (ncols input_ids - ncols responses - 1 + j)) \<and>
                         (attention_mask ! i ! (ncols input_ids - ncols responses + j) \<noteq> 0 \<longrightarrow>
                          input_ids ! i ! (ncols input_ids - ncols responses + j)
                            = responses ! i ! j \<longrightarrow>
                            log_probs ! i ! j
                              = logprobs_from_logits ext
                                  (map (\<lambda>x. x / temperature)
                                     (out ! packed_slot attention_mask i
                                              (ncols input_ids - ncols responses - 1 + j)))
                                  (responses ! i ! j))))))"
  proof (intro allI impI conjI)
    fix entropy log_probs
    assume r: "forward_micro_batch ext cfg model_fn mb temperature = Inr (entropy, log_probs)"
    from r fw have e: "entropy = map (\<lambda>row. take (ncols responses)
                          (drop (ncols input_ids - ncols responses - 1) row)) full_entropy"
      and l: "log_probs = map (\<lambda>row. take (ncols responses)
                          (drop (ncols input_ids - ncols responses - 1) row)) full_log_probs"
      by simp_all
    show "length entropy = length input_ids" using e len_e by simp
    show "length log_probs = length input_ids" using l len_l by simp
    fix i assume i: "i < length input_ids"
    have le: "length (full_entropy ! i) = ncols input_ids"
      and ll: "length (full_log_probs ! i) = ncols input_ids"
      using fe_rows fl_rows len_e len_l i by (auto simp: list_all_length)
    show "length (entropy ! i) = ncols responses"
      using i len_e le RS by (simp add: e)
    show "length (log_probs ! i) = ncols responses"
      using i len_l ll RS by (simp add: l)
    fix j assume j: "j < ncols responses"
    let ?p = "ncols input_ids - ncols responses - 1 + j"
    show ej: "entropy ! i ! j = full_entropy ! i ! ?p"
      using i j len_e le RS by (simp add: e)
    show lj: "log_probs ! i ! j = full_log_probs ! i ! ?p"
      using i j len_l ll RS by (simp add: l)
    assume nsp: "\<not> use_ulysses_sp cfg"
      and ri: "list_all (\<lambda>r. length r = ncols input_ids) input_ids"
      and rma: "list_all (\<lambda>r. length r = ncols input_ids) attention_mask"
      and lm: "length attention_mask = length input_ids"
    have sp: "Suc ?p < ncols input_ids" using j RS by simp
    have sp': "Suc ?p = ncols input_ids - ncols responses + j" using j RS by simp
    note c = packed_response_column[OF nsp pk po ri rma lm i sp]
    show "entropy ! i ! j = 0" if "attention_mask ! i ! ?p = 0"
      using c(1) that by (simp add: ej)
    show "log_probs ! i ! j = 0" if "attention_mask ! i ! ?p = 0"
      using c(1) that by (simp add: lj)
    show "ids ! packed_slot attention_mask i ?p = input_ids ! i ! ?p"
      if "attention_mask ! i ! ?p \<noteq> 0"
      using c(2) that by simp
    show "entropy ! i ! j
            = entropy_from_logits ext
                (map (\<lambda>x. x / temperature) (out ! packed_slot attention_mask i ?p))"
      if "attention_mask ! i ! ?p \<noteq> 0"
      using c(2) that by (simp add: ej)
    show "log_probs ! i ! j
            = logprobs_from_logits ext
                (map (\<lambda>x. x / temperature) (out ! packed_slot attention_mask i ?p))
                (rolled ! packed_slot attention_mask i ?p)"
      if "attention_mask ! i ! ?p \<noteq> 0"
      using c(2) that by (simp add: lj)
    show "log_probs ! i ! j
            = logprobs_from_logits ext
                (map (\<lambda>x. x / temperature) (out ! packed_slot attention_mask i ?p))
                (responses ! i ! j)"
      if "attention_mask ! i ! ?p \<noteq> 0"
        and "attention_mask ! i ! (ncols input_ids - ncols responses + j) \<noteq> 0"
        and "input_ids ! i ! (ncols input_ids - ncols responses + j) = responses ! i ! j"
      using c(2) that by (simp add: lj flip: sp')
  qed
next
  assume nrm: "\<not> self_use_remove_padding cfg"
    and dn: "model_fn \<lparr>fw_input_ids = input_ids, fw_attention_mask = Some attention_mask,
                    fw_position_ids = position_ids, fw_use_cache = False\<rparr> = dense_out"
    and shape: "list_all (\<lambda>row. length row = ncols input_ids) dense_out"
    and lpr: "logprobs_rows ext
            (map (\<lambda>row. take (ncols responses)
                    (drop (ncols input_ids - ncols responses - 1) row))
               (map (div_temperature temperature) dense_out)) responses = Inr lp"
  let ?sl = "map (\<lambda>row. take (ncols responses)
                    (drop (ncols input_ids - ncols responses - 1) row))
               (map (div_temperature temperature) dense_out)"
  have shape': "list_all (\<lambda>row. length row = ncols input_ids)
                  (map (div_temperature temperature) dense_out)"
    using shape by (simp add: list_all_iff div_temperature_def)
  have sl: "response_slice (ncols responses) (map (div_temperature temperature) dense_out)
            = ?sl"
    by (rule response_slice_rows[OF shape' RS])
  show "forward_micro_batch ext cfg model_fn mb temperature
            = Inr (map (map (entropy_from_logits ext)) ?sl, lp)"
    using nrm g1 g2 g3 g4 dn lpr
    by (simp add: forward_micro_batch_def dense_outputs_def Let_def sl)
  show "\<forall>i < length responses. \<forall>j < ncols responses.
             lp ! i ! j
               = logprobs_from_logits ext
                   (map (\<lambda>x. x / temperature)
                      (dense_out ! i ! (ncols input_ids - ncols responses - 1 + j)))
                   (responses ! i ! j)"
  proof (intro allI impI)
    fix i j
    assume i: "i < length responses" and j: "j < ncols responses"
    note shp = logprobs_rows_shape[OF lpr]
    have ll: "length ?sl = length responses"
      by (rule shp(1))
    have id: "i < length dense_out" using i ll by simp
    have row: "length (dense_out ! i) = ncols input_ids"
      using shape id by (simp add: list_all_length)
    have sli: "?sl ! i = take (ncols responses)
                 (drop (ncols input_ids - ncols responses - 1)
                    (map (map (\<lambda>x. x / temperature)) (dense_out ! i)))"
      using id by (simp add: div_temperature_def)
    have lsl: "length (?sl ! i) = ncols responses"
      using RS row unfolding sli by simp
    have lr: "length (responses ! i) = ncols responses"
      using shp(2)[OF i] lsl by simp
    have jr: "j < length (responses ! i)" using j lr by simp
    have "lp ! i ! j = logprobs_from_logits ext (?sl ! i ! j) (responses ! i ! j)"
      by (rule logprobs_rows_nth[OF lpr i jr])
    moreover have "?sl ! i ! j
        = map (\<lambda>x. x / temperature) (dense_out ! i ! (ncols input_ids - ncols responses - 1 + j))"
      using j RS row unfolding sli by simp
    ultimately show "lp ! i ! j
               = logprobs_from_logits ext
                   (map (\<lambda>x. x / temperature)
                      (dense_out ! i ! (ncols input_ids - ncols responses - 1 + j)))
                   (responses ! i ! j)"
      by simp
  qed
qed

lemma ex_right_pad_getitem:
  "getitem ex_batch_right_pad ''responses'' = Inr [[6, 0, 0], [8, 9, 4]]"
  "getitem ex_batch_right_pad ''input_ids'' = Inr [[5, 6, 0, 0], [7, 8, 9, 4]]"
  "getitem ex_batch_right_pad ''attention_mask'' = Inr [[1, 1, 0, 0], [1, 1, 1, 1]]"
  "getitem ex_batch_right_pad ''position_ids'' = Inr [[0, 1, 1, 1], [0, 1, 2, 3]]"
  by (simp_all add: getitem_def ex_batch_right_pad_def)

lemma ex_right_pad_pack_inputs:
  "pack_inputs ex_collab ex_cfg [[5, 6, 0, 0], [7, 8, 9, 4]] [[1, 1, 0, 0], [1, 1, 1, 1]]
     [[0, 1, 1, 1], [0, 1, 2, 3]]
     = Inr ([5, 6, 7, 8, 9, 4], [0, 1, 0, 1, 2, 3], [6, 7, 8, 9, 4, 5], [0, 1, 4, 5, 6, 7], 0)"
  by (simp add: pack_inputs_def unpad_input_def nonzero_def upt_rec index_first_axis_def
      roll_left_def use_ulysses_sp_def ex_cfg_def)

lemma ex_right_pad_slots:
  "packed_slot [[1, 1, 0, 0], [1, 1, 1, 1]] 0 0 = 0"
  "packed_slot [[1, 1, 0, 0], [1, 1, 1, 1]] 0 1 = 1"
  "packed_slot [[1, 1, 0, 0], [1, 1, 1, 1]] 0 (Suc 0) = Suc 0"
  by (simp_all add: packed_slot_def ncols_def upt_rec)

theorem response_span_slice_witness:
  "getitem ex_batch_right_pad ''responses'' = Inr [[6, 0, 0], [8, 9, 4]] \<and>
   getitem ex_batch_right_pad ''input_ids'' = Inr [[5, 6, 0, 0], [7, 8, 9, 4]] \<and>
   getitem ex_batch_right_pad ''attention_mask'' = Inr [[1, 1, 0, 0], [1, 1, 1, 1]] \<and>
   getitem ex_batch_right_pad ''position_ids'' = Inr [[0, 1, 1, 1], [0, 1, 2, 3]] \<and>
   ncols [[6 :: real, 0, 0], [8, 9, 4]] < ncols [[5 :: real, 6, 0, 0], [7, 8, 9, 4]] \<and>
   self_use_remove_padding ex_cfg \<and> \<not> use_ulysses_sp ex_cfg \<and>
   forward_micro_batch ex_collab ex_cfg (actor_module ex_collab False 1) ex_batch_right_pad 1
     = Inr ([[6, 7, 0], [8, 9, 10]], [[- 1, - 1, 0], [- 1, - 1, 5]]) \<and>
   (- 1 :: real) = logprobs_from_logits ex_collab [5, 1] 6 \<and>
   (- 1 :: real) = logprobs_from_logits ex_collab [6, 1] 7 \<and>
   [[6 :: real, 7, 0], [8, 9, 10]] ! 0 ! 2 = 0 \<and>
   [[- 1 :: real, - 1, 0], [- 1, - 1, 5]] ! 0 ! 2 = 0 \<and>
   \<not> self_use_remove_padding (ex_cfg\<lparr>use_remove_padding := Some False\<rparr>) \<and>
   forward_micro_batch ex_collab (ex_cfg\<lparr>use_remove_padding := Some False\<rparr>)
       (actor_module ex_collab False 1) ex_batch_right_pad 1
     = Inr ([[6, 7, 1], [8, 9, 10]], [[- 1, 6, 0], [- 1, - 1, 5]]) \<and>
   (6 :: real) = logprobs_from_logits ex_collab [6, 1] 0"
proof -
  let ?am = "[[1 :: real, 1, 0, 0], [1, 1, 1, 1]]"
  let ?ids = "[[5 :: real, 6, 0, 0], [7, 8, 9, 4]]"
  let ?out = "[[5 :: real, 1], [6, 1], [7, 1], [8, 1], [9, 1], [4, 1]]"
  have RS: "ncols [[6 :: real, 0, 0], [8, 9, 4]] < ncols ?ids"
    by (simp add: ncols_def)
  have nsp: "\<not> use_ulysses_sp ex_cfg"
    by (simp add: use_ulysses_sp_def ex_cfg_def)
  have sq: "squeeze0 (actor_module ex_collab False 1
                        (packed_args [5, 6, 7, 8, 9, 4] [0, 1, 0, 1, 2, 3])) = Inr ?out"
    by (simp add: squeeze0_def packed_args_def ex_collab_def)
  have po: "packed_outputs ex_collab ex_cfg (div_temperature 1 ?out)
              [6, 7, 8, 9, 4, 5] [0, 1, 4, 5, 6, 7] 0 (length ?ids) (ncols ?ids)
            = Inr ([[6, 7, 0, 0], [8, 9, 10, 5]], [[- 1, - 1, 0, 0], [- 1, - 1, 5, - 1]])"
    by (simp add: forward_eval ex_cfg_def ex_collab_def eval_nat_numeral)
  note T = response_span_slice[where ext = ex_collab and cfg = ex_cfg
        and model_fn = "actor_module ex_collab False 1" and temperature = 1,
      OF ex_right_pad_getitem RS, THEN conjunct1, rule_format,
      OF ex_remove_padding ex_right_pad_pack_inputs sq po]
  have fw: "forward_micro_batch ex_collab ex_cfg (actor_module ex_collab False 1)
              ex_batch_right_pad 1
            = Inr ([[6, 7, 0], [8, 9, 10]], [[- 1, - 1, 0], [- 1, - 1, 5]])"
    using T[THEN conjunct1] by (simp add: ncols_def)
  have i0: "0 < length ?ids" by simp
  have ri: "list_all (\<lambda>r. length r = ncols ?ids) ?ids"
    and rm: "list_all (\<lambda>r. length r = ncols ?ids) ?am"
    and lm: "length ?am = length ?ids"
    by (simp_all add: ncols_def)
  note row = T[THEN conjunct2, THEN conjunct2, THEN conjunct2, THEN conjunct2, THEN conjunct2,
      rule_format, OF fw, THEN conjunct2, THEN conjunct2, rule_format, OF i0,
      THEN conjunct2, THEN conjunct2, rule_format]
  have j0: "0 < ncols [[6 :: real, 0, 0], [8, 9, 4]]"
    and j1: "1 < ncols [[6 :: real, 0, 0], [8, 9, 4]]"
    and j2: "2 < ncols [[6 :: real, 0, 0], [8, 9, 4]]"
    by (simp_all add: ncols_def)
  note c0 = row[OF j0, THEN conjunct2, THEN conjunct2, rule_format, OF nsp ri rm lm]
  note c1 = row[OF j1, THEN conjunct2, THEN conjunct2, rule_format, OF nsp ri rm lm]
  note c2 = row[OF j2, THEN conjunct2, THEN conjunct2, rule_format, OF nsp ri rm lm]
  have a0: "?am ! 0 ! (ncols ?ids - ncols [[6 :: real, 0, 0], [8, 9, 4]] - 1 + 0) \<noteq> 0"
    and n0: "?am ! 0 ! (ncols ?ids - ncols [[6 :: real, 0, 0], [8, 9, 4]] + 0) \<noteq> 0"
    and t0: "?ids ! 0 ! (ncols ?ids - ncols [[6 :: real, 0, 0], [8, 9, 4]] + 0)
             = [[6 :: real, 0, 0], [8, 9, 4]] ! 0 ! 0"
    and a1: "?am ! 0 ! (ncols ?ids - ncols [[6 :: real, 0, 0], [8, 9, 4]] - 1 + 1) \<noteq> 0"
    and a2: "?am ! 0 ! (ncols ?ids - ncols [[6 :: real, 0, 0], [8, 9, 4]] - 1 + 2) = 0"
    by (simp_all add: ncols_def)
  have v0: "(- 1 :: real) = logprobs_from_logits ex_collab [5, 1] 6"
    using c0[THEN conjunct2, rule_format, OF a0, THEN conjunct2, THEN conjunct2,
        THEN conjunct2, rule_format, OF n0 t0]
    by (simp add: ncols_def ex_right_pad_slots)
  have v1: "(- 1 :: real) = logprobs_from_logits ex_collab [6, 1] 7"
    using c1[THEN conjunct2, rule_format, OF a1, THEN conjunct2, THEN conjunct2,
        THEN conjunct1]
    by (simp add: ncols_def ex_right_pad_slots)
  have v2: "[[6 :: real, 7, 0], [8, 9, 10]] ! 0 ! 2 = 0 \<and>
            [[- 1 :: real, - 1, 0], [- 1, - 1, 5]] ! 0 ! 2 = 0"
    by (rule c2[THEN conjunct1, rule_format, OF a2])
  let ?cfg = "ex_cfg\<lparr>use_remove_padding := Some False\<rparr>"
  let ?dense = "[[[5 :: real, 1], [6, 1], [0, 1], [0, 1]], [[7, 1], [8, 1], [9, 1], [4, 1]]]"
  have nrm: "\<not> self_use_remove_padding ?cfg"
    by (simp add: self_use_remove_padding_def)
  have dn: "actor_module ex_collab False 1
              \<lparr>fw_input_ids = ?ids, fw_attention_mask = Some ?am,
                 fw_position_ids = [[0, 1, 1, 1], [0, 1, 2, 3]], fw_use_cache = False\<rparr> = ?dense"
    by (simp add: ex_collab_def)
  have ds: "list_all (\<lambda>row. length row = ncols ?ids) ?dense"
    by (simp add: ncols_def)
  have lpr: "logprobs_rows ex_collab
               (map (\<lambda>row. take (ncols [[6 :: real, 0, 0], [8, 9, 4]])
                       (drop (ncols ?ids - ncols [[6 :: real, 0, 0], [8, 9, 4]] - 1) row))
                  (map (div_temperature 1) ?dense)) [[6, 0, 0], [8, 9, 4]]
             = Inr [[- 1, 6, 0], [- 1, - 1, 5]]"
    by (simp add: logprobs_rows_def div_temperature_def ncols_def ex_collab_def)
  note D = response_span_slice[where ext = ex_collab and cfg = ?cfg
        and model_fn = "actor_module ex_collab False 1" and temperature = 1,
      OF ex_right_pad_getitem RS, THEN conjunct2, rule_format, OF nrm dn ds lpr]
  have dfw: "forward_micro_batch ex_collab ?cfg (actor_module ex_collab False 1)
               ex_batch_right_pad 1
             = Inr ([[6, 7, 1], [8, 9, 10]], [[- 1, 6, 0], [- 1, - 1, 5]])"
    using D[THEN conjunct1] by (simp add: ncols_def div_temperature_def ex_collab_def)
  have di: "0 < length [[6 :: real, 0, 0], [8, 9, 4]]" by simp
  have dv: "(6 :: real) = logprobs_from_logits ex_collab [6, 1] 0"
    using D[THEN conjunct2, rule_format, OF di j1] by (simp add: ncols_def)
  from ex_right_pad_getitem RS ex_remove_padding nsp fw v0 v1
    v2[THEN conjunct1] v2[THEN conjunct2] nrm dfw dv
  show ?thesis by (intro conjI)
qed

text \<open>
  The claim as stated fails in two ways.  On the packed path the last token of a response
  that is padded on the right is attended and its successor is not: the column holds the
  log-probability of the first token of the next example (7 here) and not of the response
  token (the padding 0), which is what the path without packing returns.  And when the
  response is as long as the sequence, which the batch invariant \<open>R \<le> S\<close> allows,
  Python clamps the start of the slice to 0: with \<open>R = S = 2\<close> a single column comes
  back, column 0 of the scattered tensors.
\<close>

theorem response_span_slice_counterexample:
  "getitem ex_batch_right_pad ''responses'' = Inr [[6, 0, 0], [8, 9, 4]] \<and>
   getitem ex_batch_right_pad ''attention_mask'' = Inr [[1, 1, 0, 0], [1, 1, 1, 1]] \<and>
   squeeze0 (actor_module ex_collab False 1
               (packed_args [5, 6, 7, 8, 9, 4] [0, 1, 0, 1, 2, 3]))
     = Inr [[5, 1], [6, 1], [7, 1], [8, 1], [9, 1], [4, 1]] \<and>
   packed_slot [[1, 1, 0, 0], [1, 1, 1, 1]] 0 1 = 1 \<and>
   forward_micro_batch ex_collab ex_cfg (actor_module ex_collab False 1) ex_batch_right_pad 1
     = Inr ([[6, 7, 0], [8, 9, 10]], [[- 1, - 1, 0], [- 1, - 1, 5]]) \<and>
   logprobs_from_logits ex_collab [6, 1] ([[6 :: real, 0, 0], [8, 9, 4]] ! 0 ! 1) = 6 \<and>
   logprobs_from_logits ex_collab [6, 1] ([[5 :: real, 6, 0, 0], [7, 8, 9, 4]] ! 1 ! 0) = - 1 \<and>
   [[- 1 :: real, - 1, 0], [- 1, - 1, 5]] ! 0 ! 1
     \<noteq> logprobs_from_logits ex_collab [6, 1] ([[6 :: real, 0, 0], [8, 9, 4]] ! 0 ! 1) \<and>
   forward_micro_batch ex_collab (ex_cfg\<lparr>use_remove_padding := Some False\<rparr>)
       (actor_module ex_collab False 1) ex_batch_right_pad 1
     = Inr ([[6, 7, 1], [8, 9, 10]], [[- 1, 6, 0], [- 1, - 1, 5]]) \<and>
   getitem ex_batch_no_prompt ''responses'' = Inr [[5, 6]] \<and>
   getitem ex_batch_no_prompt ''input_ids'' = Inr [[5, 6]] \<and>
   forward_micro_batch ex_collab ex_cfg (actor_module ex_collab False 1) ex_batch_no_prompt 1
     = Inr ([[6]], [[- 1]]) \<and>
   ncols [[- 1 :: real]] \<noteq> ncols [[5 :: real, 6]]"
proof -
  have p: "forward_micro_batch ex_collab ex_cfg (actor_module ex_collab False 1)
             ex_batch_right_pad 1
           = Inr ([[6, 7, 0], [8, 9, 10]], [[- 1, - 1, 0], [- 1, - 1, 5]])"
    by (simp add: forward_eval ex_batch_right_pad_def ex_cfg_def ex_collab_def
        eval_nat_numeral)
  have d: "forward_micro_batch ex_collab (ex_cfg\<lparr>use_remove_padding := Some False\<rparr>)
               (actor_module ex_collab False 1) ex_batch_right_pad 1
           = Inr ([[6, 7, 1], [8, 9, 10]], [[- 1, 6, 0], [- 1, - 1, 5]])"
    by (simp add: forward_eval dense_outputs_def logprobs_rows_def ex_batch_right_pad_def
        ex_cfg_def ex_collab_def)
  have r: "forward_micro_batch ex_collab ex_cfg (actor_module ex_collab False 1)
             ex_batch_no_prompt 1 = Inr ([[6]], [[- 1]])"
    by (simp add: forward_eval ex_batch_no_prompt_def ex_cfg_def ex_collab_def)
  have rest: "getitem ex_batch_no_prompt ''responses'' = Inr [[5, 6]]"
    "getitem ex_batch_no_prompt ''input_ids'' = Inr [[5, 6]]"
    "ncols [[- 1 :: real]] \<noteq> ncols [[5 :: real, 6]]"
    by (simp_all add: getitem_def ncols_def ex_batch_no_prompt_def)
  have sq: "squeeze0 (actor_module ex_collab False 1
               (packed_args [5, 6, 7, 8, 9, 4] [0, 1, 0, 1, 2, 3]))
            = Inr [[5, 1], [6, 1], [7, 1], [8, 1], [9, 1], [4, 1]]"
    by (simp add: squeeze0_def packed_args_def ex_collab_def)
  have v: "logprobs_from_logits ex_collab [6, 1] ([[6 :: real, 0, 0], [8, 9, 4]] ! 0 ! 1) = 6"
    "logprobs_from_logits ex_collab [6, 1] ([[5 :: real, 6, 0, 0], [7, 8, 9, 4]] ! 1 ! 0) = - 1"
    "[[- 1 :: real, - 1, 0], [- 1, - 1, 5]] ! 0 ! 1
       \<noteq> logprobs_from_logits ex_collab [6, 1] ([[6 :: real, 0, 0], [8, 9, 4]] ! 0 ! 1)"
    by (simp_all add: ex_collab_def)
  from ex_right_pad_getitem(1) ex_right_pad_getitem(3) sq ex_right_pad_slots(2) p v d rest r
  show ?thesis by (intro conjI)
qed

subsection \<open>The model call of the packed path\<close>

text \<open>
  Claim C7.  On the packed path the model is called once, with the packed token ids and
  the packed position ids (the mask-selected entries in row-major order; this rank's
  padded shard of them when the sequence-parallel width is above 1), no attention mask
  and caching off: a model that agrees with the given one on these arguments gives the
  same result.  The logits it returns are divided by the temperature, and entropy and
  log-probabilities are computed from the divided logits only.
\<close>

theorem packed_forward_call:
  assumes rm: "self_use_remove_padding cfg"
    and g1: "getitem mb ''responses'' = Inr responses"
    and g2: "getitem mb ''input_ids'' = Inr input_ids"
    and g3: "getitem mb ''attention_mask'' = Inr attention_mask"
    and g4: "getitem mb ''position_ids'' = Inr position_ids"
    and pk: "pack_inputs ext cfg input_ids attention_mask position_ids
               = Inr (ids, pos, rolled, indices, pad_size)"
  shows "forward_micro_batch ext cfg model_fn mb temperature =
           (case squeeze0 (model_fn \<lparr>fw_input_ids = [ids], fw_attention_mask = None,
                                     fw_position_ids = [pos], fw_use_cache = False\<rparr>) of
              Inl e \<Rightarrow> Inl e
            | Inr out \<Rightarrow>
               (case packed_outputs ext cfg (map (map (\<lambda>x. x / temperature)) out) rolled indices
                       pad_size (length input_ids) (ncols input_ids) of
                  Inl e \<Rightarrow> Inl e
                | Inr (fe, fl) \<Rightarrow>
                    Inr (response_slice (ncols responses) fe,
                         response_slice (ncols responses) fl))) \<and>
         (\<forall>m'. m' \<lparr>fw_input_ids = [ids], fw_attention_mask = None,
                    fw_position_ids = [pos], fw_use_cache = False\<rparr>
                = model_fn \<lparr>fw_input_ids = [ids], fw_attention_mask = None,
                             fw_position_ids = [pos], fw_use_cache = False\<rparr> \<longrightarrow>
               forward_micro_batch ext cfg m' mb temperature
                = forward_micro_batch ext cfg model_fn mb temperature) \<and>
         (\<not> use_ulysses_sp cfg \<longrightarrow>
            index_first_axis (concat input_ids) (nonzero (concat attention_mask)) = Inr ids \<and>
            index_first_axis (concat position_ids) (nonzero (concat attention_mask)) = Inr pos) \<and>
         (use_ulysses_sp cfg \<longrightarrow>
            (\<exists>ids0 pos0.
               index_first_axis (concat input_ids) (nonzero (concat attention_mask)) = Inr ids0 \<and>
               index_first_axis (concat position_ids) (nonzero (concat attention_mask)) = Inr pos0 \<and>
               ulysses_pad_and_slice_inputs ext ids0 (Some pos0) (ulysses_sequence_parallel_size cfg)
                 = (ids, Some pos, pad_size))) \<and>
         (\<forall>out entropy log_probs.
            squeeze0 (model_fn \<lparr>fw_input_ids = [ids], fw_attention_mask = None,
                                 fw_position_ids = [pos], fw_use_cache = False\<rparr>) = Inr out \<longrightarrow>
            forward_micro_batch ext cfg model_fn mb temperature = Inr (entropy, log_probs) \<longrightarrow>
            (\<exists>lp fe fl.
               logprobs_flat ext (map (map (\<lambda>x. x / temperature)) out) rolled = Inr lp \<and>
               pad_input 0
                 (if use_ulysses_sp cfg
                  then gather_outpus_and_unpad ext
                         (map (entropy_from_logits ext) (map (map (\<lambda>x. x / temperature)) out))
                         pad_size
                  else map (entropy_from_logits ext) (map (map (\<lambda>x. x / temperature)) out))
                 indices (length input_ids) (ncols input_ids) = Inr fe \<and>
               pad_input 0
                 (if use_ulysses_sp cfg then gather_outpus_and_unpad ext lp pad_size else lp)
                 indices (length input_ids) (ncols input_ids) = Inr fl \<and>
               entropy = response_slice (ncols responses) fe \<and>
               log_probs = response_slice (ncols responses) fl))"
proof -
  let ?args = "\<lparr>fw_input_ids = [ids], fw_attention_mask = None,
                fw_position_ids = [pos], fw_use_cache = False\<rparr>"
  have unf: "forward_micro_batch ext cfg m mb temperature =
           (case squeeze0 (m ?args) of
              Inl e \<Rightarrow> Inl e
            | Inr out \<Rightarrow>
               (case packed_outputs ext cfg (map (map (\<lambda>x. x / temperature)) out) rolled indices
                       pad_size (length input_ids) (ncols input_ids) of
                  Inl e \<Rightarrow> Inl e
                | Inr (fe, fl) \<Rightarrow>
                    Inr (response_slice (ncols responses) fe,
                         response_slice (ncols responses) fl)))" for m
    using rm g1 g2 g3 g4 pk
    by (simp add: forward_micro_batch_def packed_args_def div_temperature_def cong: sum.case_cong)
  have only: "\<forall>m'. m' ?args = model_fn ?args \<longrightarrow>
               forward_micro_batch ext cfg m' mb temperature
                = forward_micro_batch ext cfg model_fn mb temperature"
    by (simp add: unf)
  have nosp: "\<not> use_ulysses_sp cfg \<longrightarrow>
            index_first_axis (concat input_ids) (nonzero (concat attention_mask)) = Inr ids \<and>
            index_first_axis (concat position_ids) (nonzero (concat attention_mask)) = Inr pos"
    using pk
    by (auto simp: pack_inputs_def unpad_input_def Let_def split: sum.splits)
  have sp: "use_ulysses_sp cfg \<longrightarrow>
            (\<exists>ids0 pos0.
               index_first_axis (concat input_ids) (nonzero (concat attention_mask)) = Inr ids0 \<and>
               index_first_axis (concat position_ids) (nonzero (concat attention_mask)) = Inr pos0 \<and>
               ulysses_pad_and_slice_inputs ext ids0 (Some pos0) (ulysses_sequence_parallel_size cfg)
                 = (ids, Some pos, pad_size))"
    using pk
    by (auto simp: pack_inputs_def unpad_input_def Let_def split: sum.splits prod.splits option.splits)
  have scaled: "\<forall>out entropy log_probs.
            squeeze0 (model_fn ?args) = Inr out \<longrightarrow>
            forward_micro_batch ext cfg model_fn mb temperature = Inr (entropy, log_probs) \<longrightarrow>
            (\<exists>lp fe fl.
               logprobs_flat ext (map (map (\<lambda>x. x / temperature)) out) rolled = Inr lp \<and>
               pad_input 0
                 (if use_ulysses_sp cfg
                  then gather_outpus_and_unpad ext
                         (map (entropy_from_logits ext) (map (map (\<lambda>x. x / temperature)) out))
                         pad_size
                  else map (entropy_from_logits ext) (map (map (\<lambda>x. x / temperature)) out))
                 indices (length input_ids) (ncols input_ids) = Inr fe \<and>
               pad_input 0
                 (if use_ulysses_sp cfg then gather_outpus_and_unpad ext lp pad_size else lp)
                 indices (length input_ids) (ncols input_ids) = Inr fl \<and>
               entropy = response_slice (ncols responses) fe \<and>
               log_probs = response_slice (ncols responses) fl)"
    by (auto simp: unf packed_outputs_def Let_def split: sum.splits)
  from unf[of model_fn] only nosp sp scaled show ?thesis by blast
qed

theorem packed_forward_call_witness:
  "self_use_remove_padding ex_cfg \<and>
   getitem ex_batch ''responses'' = Inr [[7], [9]] \<and>
   getitem ex_batch ''input_ids'' = Inr [[5, 6, 7], [0, 8, 9]] \<and>
   getitem ex_batch ''attention_mask'' = Inr [[1, 1, 1], [0, 1, 1]] \<and>
   getitem ex_batch ''position_ids'' = Inr [[0, 1, 2], [0, 0, 1]] \<and>
   pack_inputs ex_collab ex_cfg [[5, 6, 7], [0, 8, 9]] [[1, 1, 1], [0, 1, 1]]
     [[0, 1, 2], [0, 0, 1]]
     = Inr ([5, 6, 7, 8, 9], [0, 1, 2, 0, 1], [6, 7, 8, 9, 5], [0, 1, 2, 4, 5], 0) \<and>
   forward_micro_batch ex_collab ex_cfg (actor_module ex_collab False 1) ex_batch 2
     = Inr ([[7 / 2], [9 / 2]], [[- 4], [- 5]]) \<and>
   index_first_axis (concat [[5 :: real, 6, 7], [0, 8, 9]])
     (nonzero (concat [[1, 1, 1], [0, 1, 1]])) = Inr [5, 6, 7, 8, 9]"
proof -
  note T = packed_forward_call[OF ex_remove_padding ex_getitem ex_pack_inputs,
      of "actor_module ex_collab False 1" 2]
  have nsp: "\<not> use_ulysses_sp ex_cfg"
    by (simp add: use_ulysses_sp_def ex_cfg_def)
  from T have "forward_micro_batch ex_collab ex_cfg (actor_module ex_collab False 1) ex_batch 2 =
           (case squeeze0 (actor_module ex_collab False 1
                             \<lparr>fw_input_ids = [[5, 6, 7, 8, 9]], fw_attention_mask = None,
                              fw_position_ids = [[0, 1, 2, 0, 1]], fw_use_cache = False\<rparr>) of
              Inl e \<Rightarrow> Inl e
            | Inr out \<Rightarrow>
               (case packed_outputs ex_collab ex_cfg (map (map (\<lambda>x. x / 2)) out)
                       [6, 7, 8, 9, 5] [0, 1, 2, 4, 5] 0
                       (length [[5 :: real, 6, 7], [0, 8, 9]])
                       (ncols [[5 :: real, 6, 7], [0, 8, 9]]) of
                  Inl e \<Rightarrow> Inl e
                | Inr (fe, fl) \<Rightarrow>
                    Inr (response_slice (ncols [[7 :: real], [9]]) fe,
                         response_slice (ncols [[7 :: real], [9]]) fl)))"
    by blast
  then have fw: "forward_micro_batch ex_collab ex_cfg (actor_module ex_collab False 1) ex_batch 2
     = Inr ([[7 / 2], [9 / 2]], [[- 4], [- 5]])"
    by (simp add: forward_eval ex_cfg_def ex_collab_def)
  from T nsp have "index_first_axis (concat [[5 :: real, 6, 7], [0, 8, 9]])
     (nonzero (concat [[1, 1, 1], [0, 1, 1]])) = Inr [5, 6, 7, 8, 9]"
    by blast
  with fw ex_remove_padding ex_getitem ex_pack_inputs show ?thesis by blast
qed

subsection \<open>The supervised loss\<close>

lemma zip_map_zip_fst:
  "length a = length b \<Longrightarrow> zip (map f (zip a b)) a = map (\<lambda>(x, y). (f (x, y), x)) (zip a b)"
  by (induction a b rule: list_induct2) auto

lemma sft_loss_of_token_mean:
  assumes "map length gmask = map length lp"
  shows "sft_loss_of gmask lp
         = Inr (- (sum_list (token_mean_rows gmask lp)
                   / (real (count_nonzero (token_mean_rows gmask lp)) + 1 / 1000000)))"
proof -
  from assms have len: "length gmask = length lp"
    by (metis length_map)
  show ?thesis
    using assms
    by (simp add: sft_loss_of_def Let_def token_mean_rows_def zip_map_zip_fst[OF len]
        case_prod_unfold comp_def)
qed

lemma binary_sum:
  "list_all (\<lambda>x. x = 0 \<or> x = 1) (m :: real list) \<Longrightarrow>
     sum_list m = real (length (filter (\<lambda>x. x \<noteq> 0) m))"
  by (induction m) auto

lemma binary_masked_sum:
  "list_all (\<lambda>x. x = 0 \<or> x = 1) (m :: real list) \<Longrightarrow>
     sum_list (map (\<lambda>(x, y). x * y) (zip m l))
       = sum_list (map snd (filter (\<lambda>(x, y). x \<noteq> 0) (zip m l)))"
proof (induction m arbitrary: l)
  case Nil
  then show ?case by simp
next
  case (Cons x m)
  then show ?case by (cases l) auto
qed

lemma zero_mask_sum:
  "\<not> list_ex (\<lambda>x. x \<noteq> 0) (m :: real list) \<Longrightarrow> sum_list (map (\<lambda>(x, y). x * y) (zip m l)) = (0 :: real)"
proof (induction m arbitrary: l)
  case Nil
  then show ?case by simp
next
  case (Cons x m)
  then show ?case by (cases l) auto
qed

lemma token_mean_spec:
  "list_all (\<lambda>x. x = 0 \<or> x = 1) (m :: real list) \<Longrightarrow>
     sum_list (map (\<lambda>(x, y). x * y) (zip m l)) / (sum_list m + 1 / 1000000)
       = masked_mean_spec m l"
  by (simp add: masked_mean_spec_def binary_sum binary_masked_sum)

lemma token_mean_rows_spec:
  "list_all (list_all (\<lambda>x. x = 0 \<or> x = 1)) gmask \<Longrightarrow>
     token_mean_rows gmask lp = map (\<lambda>(m, l). masked_mean_spec m l) (zip gmask lp)"
proof (induction gmask arbitrary: lp)
  case Nil
  then show ?case by (simp add: token_mean_rows_def)
next
  case (Cons m gmask)
  then show ?case
    by (cases lp) (auto simp: token_mean_rows_def token_mean_spec)
qed

lemma token_mean_nonzero_iff:
  assumes bin: "list_all (\<lambda>x. x = 0 \<or> x = 1) (m :: real list)"
    and nz: "list_ex (\<lambda>x. x \<noteq> 0) m \<longrightarrow> sum_list (map (\<lambda>(x, y). x * y) (zip m l)) \<noteq> 0"
  shows "sum_list (map (\<lambda>(x, y). x * y) (zip m l)) / (sum_list m + 1 / 1000000) \<noteq> 0
         \<longleftrightarrow> list_ex (\<lambda>x. x \<noteq> 0) m"
proof -
  have "sum_list m + 1 / 1000000 > 0"
    using bin by (simp add: binary_sum add_pos_nonneg)
  then have d: "sum_list m + 1 / 1000000 \<noteq> 0" by simp
  show ?thesis
    using nz zero_mask_sum[of m l] d by auto
qed

lemma count_nonzero_token_mean:
  assumes "length gmask = length lp"
    and "list_all (list_all (\<lambda>x. x = 0 \<or> x = 1)) gmask"
    and "list_all (\<lambda>(m, l). list_ex (\<lambda>x. x \<noteq> 0) m \<longrightarrow>
                     sum_list (map (\<lambda>(x, y). x * y) (zip m l)) \<noteq> 0) (zip gmask lp)"
  shows "count_nonzero (token_mean_rows gmask lp)
         = length (filter (list_ex (\<lambda>x. x \<noteq> 0)) gmask)"
  using assms
proof (induction gmask lp rule: list_induct2)
  case Nil
  then show ?case by (simp add: count_nonzero_def token_mean_rows_def)
next
  case (Cons m gmask l lp)
  have hd: "sum_list (map (\<lambda>(x, y). x * y) (zip m l)) / (sum_list m + 1 / 1000000) \<noteq> 0
            \<longleftrightarrow> list_ex (\<lambda>x. x \<noteq> 0) m"
    using Cons.prems by (intro token_mean_nonzero_iff) simp_all
  have tl: "count_nonzero (token_mean_rows gmask lp)
            = length (filter (list_ex (\<lambda>x. x \<noteq> 0)) gmask)"
    using Cons by simp
  show ?case
    using hd tl by (simp add: count_nonzero_def token_mean_rows_def)
qed

text \<open>
  Claim C6, amended.  In multi-task mode the supervised loss of a micro-batch is the
  negated sum of the per-example masked means (masked sum over ground-truth-token count
  plus epsilon) divided by epsilon plus the number of examples whose masked mean is
  not zero, and the loss times the coefficient is added to the policy loss.  That number
  is the number of examples with at least one ground-truth token, and the loss is the one
  the specification words, whenever the gmask is 0/1 and every example with a
  ground-truth token has a non-zero masked sum (as when its log-probabilities are
  strictly negative).
\<close>

theorem sft_loss_multi_task:
  assumes shape: "map length gmask = map length lp"
  shows "sft_loss_of gmask lp
           = Inr (- (sum_list (token_mean_rows gmask lp)
                     / (real (count_nonzero (token_mean_rows gmask lp)) + 1 / 1000000))) \<and>
         (list_all (list_all (\<lambda>x. x = 0 \<or> x = 1)) gmask \<longrightarrow>
          list_all (\<lambda>(m, l). list_ex (\<lambda>x. x \<noteq> 0) m \<longrightarrow>
                      sum_list (map (\<lambda>(x, y). x * y) (zip m l)) \<noteq> 0) (zip gmask lp) \<longrightarrow>
          sft_loss_of gmask lp = Inr (sft_loss_spec gmask lp)) \<and>
         (multi_task cfg \<longrightarrow>
          getitem data ''ground_truth_mask_pr'' = Inr gmask \<longrightarrow>
          getitem data ''old_log_probs_pr'' = Inr lp \<longrightarrow>
          (\<exists>sft_loss ms'.
             sft_loss_of gmask lp = Inr sft_loss \<and>
             sft_term cfg data policy_loss ms
               = Inr (policy_loss + sft_loss * sft_loss_coef cfg, ms')))"
proof (intro conjI impI)
  show code: "sft_loss_of gmask lp
           = Inr (- (sum_list (token_mean_rows gmask lp)
                     / (real (count_nonzero (token_mean_rows gmask lp)) + 1 / 1000000)))"
    by (rule sft_loss_of_token_mean[OF shape])
  {
    assume bin: "list_all (list_all (\<lambda>x. x = 0 \<or> x = 1)) gmask"
      and nz: "list_all (\<lambda>(m, l). list_ex (\<lambda>x. x \<noteq> 0) m \<longrightarrow>
                      sum_list (map (\<lambda>(x, y). x * y) (zip m l)) \<noteq> 0) (zip gmask lp)"
    from shape have len: "length gmask = length lp" by (metis length_map)
    show "sft_loss_of gmask lp = Inr (sft_loss_spec gmask lp)"
      unfolding code
      by (simp add: sft_loss_spec_def token_mean_rows_spec[OF bin]
          count_nonzero_token_mean[OF len bin nz, unfolded token_mean_rows_spec[OF bin]])
  }
  {
    assume mt: "multi_task cfg"
      and g1: "getitem data ''ground_truth_mask_pr'' = Inr gmask"
      and g2: "getitem data ''old_log_probs_pr'' = Inr lp"
    show "\<exists>sft_loss ms'.
             sft_loss_of gmask lp = Inr sft_loss \<and>
             sft_term cfg data policy_loss ms
               = Inr (policy_loss + sft_loss * sft_loss_coef cfg, ms')"
      using mt g1 g2 code by (simp add: sft_term_def)
  }
qed

theorem sft_loss_multi_task_witness:
  "map length [[1 :: real, 0], [0, 0]] = map length [[- 2 :: real, - 1], [- 3, - 4]] \<and>
   list_all (list_all (\<lambda>x. x = 0 \<or> x = 1)) [[1 :: real, 0], [0, 0]] \<and>
   list_all (\<lambda>(m, l). list_ex (\<lambda>x. x \<noteq> 0) m \<longrightarrow>
               sum_list (map (\<lambda>(x, y). x * y) (zip m l)) \<noteq> 0)
     (zip [[1 :: real, 0], [0, 0]] [[- 2 :: real, - 1], [- 3, - 4]]) \<and>
   multi_task (ex_cfg\<lparr>use_sft_loss := Some True, sft_type := Some ''multi_task''\<rparr>) \<and>
   getitem ex_sft_batch ''ground_truth_mask_pr'' = Inr [[1, 0], [0, 0]] \<and>
   getitem ex_sft_batch ''old_log_probs_pr'' = Inr [[- 2, - 1], [- 3, - 4]] \<and>
   sft_loss_of [[1, 0], [0, 0]] [[- 2, - 1], [- 3, - 4]]
     = Inr (sft_loss_spec [[1, 0], [0, 0]] [[- 2, - 1], [- 3, - 4]]) \<and>
   sft_loss_spec [[1, 0], [0, 0]] [[- 2, - 1], [- 3, - 4]] = 2000000000000 / 1000002000001 \<and>
   (\<exists>sft_loss ms'.
      sft_loss_of [[1, 0], [0, 0]] [[- 2, - 1], [- 3, - 4]] = Inr sft_loss \<and>
      sft_term (ex_cfg\<lparr>use_sft_loss := Some True, sft_type := Some ''multi_task''\<rparr>)
        ex_sft_batch 10 []
        = Inr (10 + sft_loss
                    * sft_loss_coef (ex_cfg\<lparr>use_sft_loss := Some True,
                                            sft_type := Some ''multi_task''\<rparr>), ms'))"
proof -
  let ?M = "[[1 :: real, 0], [0, 0]]" and ?L = "[[- 2 :: real, - 1], [- 3, - 4]]"
  let ?cfg = "ex_cfg\<lparr>use_sft_loss := Some True, sft_type := Some ''multi_task''\<rparr>"
  have shape: "map length ?M = map length ?L" by simp
  have bin: "list_all (list_all (\<lambda>x. x = 0 \<or> x = 1)) ?M" by simp
  have nz: "list_all (\<lambda>(m, l). list_ex (\<lambda>x. x \<noteq> 0) m \<longrightarrow>
               sum_list (map (\<lambda>(x, y). x * y) (zip m l)) \<noteq> 0) (zip ?M ?L)"
    by simp
  have mt: "multi_task ?cfg" by (simp add: multi_task_def ex_cfg_def)
  have g1: "getitem ex_sft_batch ''ground_truth_mask_pr'' = Inr ?M"
    and g2: "getitem ex_sft_batch ''old_log_probs_pr'' = Inr ?L"
    by (simp_all add: getitem_def ex_sft_batch_def)
  note T = sft_loss_multi_task[OF shape, of ?cfg ex_sft_batch 10 "[]"]
  have a: "sft_loss_of ?M ?L = Inr (sft_loss_spec ?M ?L)"
    by (rule T[THEN conjunct2, THEN conjunct1, rule_format, OF bin nz])
  have b: "sft_loss_spec ?M ?L = 2000000000000 / 1000002000001"
    by (simp add: sft_loss_spec_def masked_mean_spec_def)
  have c: "\<exists>sft_loss ms'. sft_loss_of ?M ?L = Inr sft_loss \<and>
      sft_term ?cfg ex_sft_batch 10 [] = Inr (10 + sft_loss * sft_loss_coef ?cfg, ms')"
    by (rule T[THEN conjunct2, THEN conjunct2, rule_format, OF mt g1 g2])
  from shape bin nz mt g1 g2 a b c show ?thesis by (intro conjI)
qed

text \<open>
  The claim as stated fails when an example has a ground-truth token whose
  log-probabilities sum to zero: with two examples of one ground-truth token each and
  log-probabilities 0 and -2 the code divides by \<open>1 + eps\<close>, the claim by \<open>2 + eps\<close>.
\<close>

theorem sft_loss_multi_task_counterexample:
  "sft_loss_of [[1], [1]] [[0], [- 2]] = Inr (2000000000000 / 1000002000001) \<and>
   sft_loss_spec [[1], [1]] [[0], [- 2]] = 2000000000000 / 2000003000001"
  by (simp add: sft_loss_of_def count_nonzero_def sft_loss_spec_def masked_mean_spec_def)

subsection \<open>Restoring the order of the examples\<close>

lemma position_of_le: "position_of p xs \<le> length xs"
  by (induction xs) auto

lemma position_of_mem:
  "p \<in> set xs \<Longrightarrow> position_of p xs < length xs \<and> xs ! position_of p xs = p"
  by (induction xs) auto

lemma position_of_nth:
  "distinct xs \<Longrightarrow> k < length xs \<Longrightarrow> position_of (xs ! k) xs = k"
proof (induction xs arbitrary: k)
  case Nil
  then show ?case by simp
next
  case (Cons x xs)
  show ?case
  proof (cases k)
    case 0
    then show ?thesis by simp
  next
    case (Suc j)
    with Cons.prems have "xs ! j \<in> set xs" and "x \<notin> set xs" by auto
    then have "xs ! j \<noteq> x" by auto
    with Cons Suc show ?thesis by simp
  qed
qed

lemma get_reverse_idx_perm:
  assumes d: "distinct idx" and s: "set idx = {0..<length idx}"
  shows "length (get_reverse_idx idx) = length idx"
    and "p < length idx \<Longrightarrow> get_reverse_idx idx ! p < length idx"
    and "p < length idx \<Longrightarrow> idx ! (get_reverse_idx idx ! p) = p"
    and "k < length idx \<Longrightarrow> get_reverse_idx idx ! (idx ! k) = k"
proof -
  show "length (get_reverse_idx idx) = length idx"
    by (simp add: get_reverse_idx_def)
  {
    assume p: "p < length idx"
    then have "p \<in> set idx" using s by simp
    from position_of_mem[OF this] p
    show "get_reverse_idx idx ! p < length idx" and "idx ! (get_reverse_idx idx ! p) = p"
      by (simp_all add: get_reverse_idx_def)
  }
  {
    assume k: "k < length idx"
    then have "idx ! k \<in> set idx" by simp
    then have "idx ! k < length idx" using s by simp
    then show "get_reverse_idx idx ! (idx ! k) = k"
      using position_of_nth[OF d k] by (simp add: get_reverse_idx_def)
  }
qed

lemma get_reverse_idx_in_range:
  assumes "distinct idx" and "set idx = {0..<length idx}"
  shows "list_all (\<lambda>i. i < length idx) (get_reverse_idx idx)"
  using get_reverse_idx_perm(1,2)[OF assms]
  by (auto simp: list_all_length)

lemma place_mset:
  "mset (concat (map fst (place budget (i, t) groups)))
     = mset (concat (map fst groups)) + {#i#}"
  by (induction groups) (auto split: prod.splits)

lemma fold_place_mset:
  "mset (concat (map fst (fold (place budget) ps groups)))
     = mset (concat (map fst groups)) + mset (map fst ps)"
proof (induction ps arbitrary: groups)
  case Nil
  then show ?case by simp
next
  case (Cons q ps)
  obtain i t where q: "q = (i, t)" by (cases q)
  show ?case by (simp add: q Cons place_mset)
qed

lemma greedy_micro_batches_perm:
  assumes "greedy_micro_batches b budget = Inr (mbs, idxs)"
  shows "distinct (concat idxs) \<and> set (concat idxs) = {0..<batch_size b} \<and>
         mbs = map (\<lambda>idx. index_select idx b) idxs"
proof -
  from assms obtain attention_mask where
    n: "length (token_counts attention_mask) = batch_size b"
    and i: "idxs = map fst (fold (place budget)
                    (zip [0..<length (token_counts attention_mask)] (token_counts attention_mask)) [])"
    and m: "mbs = map (\<lambda>idx. index_select idx b) idxs"
    by (auto simp: greedy_micro_batches_def Let_def split: sum.splits if_splits)
  have "mset (concat idxs) = mset [0..<batch_size b]"
    unfolding i by (simp add: fold_place_mset n)
  then have "distinct (concat idxs)" and "set (concat idxs) = {0..<batch_size b}"
    by (metis distinct_upt mset_eq_imp_distinct_iff, metis atLeastLessThan_upt mset_eq_setD)
  with m show ?thesis by simp
qed

lemma forward_micro_batch_rows:
  "forward_micro_batch ext cfg model_fn mb temperature = Inr (entropy, log_probs) \<Longrightarrow>
     length entropy = length log_probs"
  by (auto simp: forward_micro_batch_def dense_outputs_def logprobs_rows_def response_slice_def
      Let_def split: sum.splits prod.splits if_splits
      dest!: packed_outputs_shape dest: map_eq_imp_length_eq)

lemma forward_all_rows:
  "forward_all (\<lambda>mb. forward_micro_batch ext cfg model_fn mb temperature) mbs = Inr outs \<Longrightarrow>
     length (concat (map fst outs)) = length (concat (map snd outs))"
proof (induction mbs arbitrary: outs)
  case Nil
  then show ?case by simp
next
  case (Cons mb mbs)
  then show ?case
    by (auto split: sum.splits dest: forward_micro_batch_rows)
qed

text \<open>
  Claim C1.  Under dynamic micro-batching \<^verbatim>\<open>compute_log_prob\<close> raises
  \<open>AssertionError\<close> when the number of recorded indices differs from the number of
  concatenated result rows.  When the flattened index lists are a bijection over the
  \<open>N\<close> examples, it returns the concatenated rows reindexed by the reverse
  permutation: row \<open>p\<close> of the result is the concatenated row \<open>reverse[p]\<close>, and
  that row is the one computed for the slot that holds original example \<open>p\<close>
  (\<open>indices[reverse[p]] = p\<close>, \<open>reverse[indices[k]] = k\<close>).  The flattened index
  lists of the planner are such a bijection, and its micro-batches hold the examples the
  index lists name.
\<close>

theorem compute_log_prob_restores_order:
  assumes m1: "meta_micro_batch_size (meta data) = Some micro_batch_size"
    and m2: "meta_temperature (meta data) = Some temperature"
    and m3: "meta_use_dynamic_bsz (meta data) = Some True"
    and m4: "meta_max_token_len (meta data) = Some max_token_len"
    and sel: "select [''responses'', ''input_ids'', ''attention_mask'', ''position_ids'']
                (batch data) = Inr b"
    and plan: "rearrange_micro_batches ext b (max_token_len * ulysses_sequence_parallel_size cfg)
                 = Inr (micro_batches, indices)"
    and fwd: "forward_all
                (\<lambda>mb. forward_micro_batch ext cfg (actor_module ext False ps) mb temperature)
                micro_batches = Inr outs"
    and ne: "micro_batches \<noteq> []"
  shows "(length (concat indices) \<noteq> length (concat (map snd outs)) \<longrightarrow>
            compute_log_prob ext cfg ps data = Inl AssertionError) \<and>
         (distinct (concat indices) \<longrightarrow>
          set (concat indices) = {0..<length (concat indices)} \<longrightarrow>
          length (concat indices) = length (concat (map snd outs)) \<longrightarrow>
            compute_log_prob ext cfg ps data
              = Inr (map (\<lambda>r. concat (map snd outs) ! r) (get_reverse_idx (concat indices)),
                     map (\<lambda>r. concat (map fst outs) ! r) (get_reverse_idx (concat indices))) \<and>
            length (get_reverse_idx (concat indices)) = length (concat indices) \<and>
            (\<forall>p < length (concat indices).
               get_reverse_idx (concat indices) ! p < length (concat indices) \<and>
               concat indices ! (get_reverse_idx (concat indices) ! p) = p \<and>
               get_reverse_idx (concat indices) ! (concat indices ! p) = p \<and>
               map (\<lambda>r. concat (map snd outs) ! r) (get_reverse_idx (concat indices)) ! p
                 = concat (map snd outs) ! (get_reverse_idx (concat indices) ! p) \<and>
               map (\<lambda>r. concat (map fst outs) ! r) (get_reverse_idx (concat indices)) ! p
                 = concat (map fst outs) ! (get_reverse_idx (concat indices) ! p))) \<and>
         (rearrange_micro_batches ext = greedy_micro_batches \<longrightarrow>
            distinct (concat indices) \<and> set (concat indices) = {0..<batch_size b} \<and>
            micro_batches = map (\<lambda>idx. index_select idx b) indices)"
proof (intro conjI impI)
  from forward_all_Inr_all[OF fwd] ne have outs_ne: "outs \<noteq> []" by auto
  have rows: "length (concat (map fst outs)) = length (concat (map snd outs))"
    by (rule forward_all_rows[OF fwd])
  have pre: "compute_log_prob ext cfg ps data =
      (case revert_order indices (concat (map snd outs)) of
           Inl e \<Rightarrow> Inl e
         | Inr revert_indices \<Rightarrow>
        (case index_first_axis (concat (map snd outs)) revert_indices of
           Inl e \<Rightarrow> Inl e
         | Inr log_probs' \<Rightarrow>
        (case index_first_axis (concat (map fst outs)) revert_indices of
           Inl e \<Rightarrow> Inl e
         | Inr entropy' \<Rightarrow> Inr (log_probs', entropy'))))"
    using m1 m2 m3 m4 sel plan fwd outs_ne
    by (simp add: compute_log_prob_def meta_get_def make_micro_batches_def torch_concat_def)
  {
    assume "length (concat indices) \<noteq> length (concat (map snd outs))"
    then show "compute_log_prob ext cfg ps data = Inl AssertionError"
      by (simp add: pre revert_order_def)
  }
  {
    assume d: "distinct (concat indices)"
      and s: "set (concat indices) = {0..<length (concat indices)}"
      and l: "length (concat indices) = length (concat (map snd outs))"
    note P = get_reverse_idx_perm[OF d s]
    have rng: "list_all (\<lambda>i. i < length (concat (map snd outs))) (get_reverse_idx (concat indices))"
      using get_reverse_idx_in_range[OF d s] l by simp
    have rng': "list_all (\<lambda>i. i < length (concat (map fst outs))) (get_reverse_idx (concat indices))"
      using rng rows by simp
    show "compute_log_prob ext cfg ps data
              = Inr (map (\<lambda>r. concat (map snd outs) ! r) (get_reverse_idx (concat indices)),
                     map (\<lambda>r. concat (map fst outs) ! r) (get_reverse_idx (concat indices)))"
      using l rng rng' by (simp add: pre revert_order_def index_first_axis_def)
    show "length (get_reverse_idx (concat indices)) = length (concat indices)"
      by (rule P(1))
    show "\<forall>p < length (concat indices).
               get_reverse_idx (concat indices) ! p < length (concat indices) \<and>
               concat indices ! (get_reverse_idx (concat indices) ! p) = p \<and>
               get_reverse_idx (concat indices) ! (concat indices ! p) = p \<and>
               map (\<lambda>r. concat (map snd outs) ! r) (get_reverse_idx (concat indices)) ! p
                 = concat (map snd outs) ! (get_reverse_idx (concat indices) ! p) \<and>
               map (\<lambda>r. concat (map fst outs) ! r) (get_reverse_idx (concat indices)) ! p
                 = concat (map fst outs) ! (get_reverse_idx (concat indices) ! p)"
      using P by simp
  }
  {
    assume g: "rearrange_micro_batches ext = greedy_micro_batches"
    from plan g have "greedy_micro_batches b (max_token_len * ulysses_sequence_parallel_size cfg)
                 = Inr (micro_batches, indices)"
      by simp
    from greedy_micro_batches_perm[OF this]
    show "distinct (concat indices)" and "set (concat indices) = {0..<batch_size b}"
      and "micro_batches = map (\<lambda>idx. index_select idx b) indices"
      by simp_all
  }
qed

theorem compute_log_prob_restores_order_witness:
  "meta_micro_batch_size (meta ex_data3) = Some 1 \<and>
   meta_temperature (meta ex_data3) = Some 1 \<and>
   meta_use_dynamic_bsz (meta ex_data3) = Some True \<and>
   meta_max_token_len (meta ex_data3) = Some 4 \<and>
   select [''responses'', ''input_ids'', ''attention_mask'', ''position_ids'']
     (batch ex_data3) = Inr ex_batch3 \<and>
   rearrange_micro_batches ex_collab ex_batch3 (4 * ulysses_sequence_parallel_size ex_cfg)
     = Inr ([index_select [0, 2] ex_batch3, index_select [1] ex_batch3], [[0, 2], [1]]) \<and>
   forward_all
     (\<lambda>mb. forward_micro_batch ex_collab ex_cfg (actor_module ex_collab False 1) mb 1)
     [index_select [0, 2] ex_batch3, index_select [1] ex_batch3]
     = Inr [([[7], [0]], [[- 1], [0]]), ([[9]], [[- 1]])] \<and>
   distinct (concat [[0 :: nat, 2], [1]]) \<and>
   set (concat [[0 :: nat, 2], [1]]) = {0..<length (concat [[0 :: nat, 2], [1]])} \<and>
   get_reverse_idx (concat [[0, 2], [1]]) = [0, 2, 1] \<and>
   compute_log_prob ex_collab ex_cfg 1 ex_data3 = Inr ([[- 1], [- 1], [0]], [[7], [9], [0]])"
proof -
  let ?mbs = "[index_select [0, 2] ex_batch3, index_select [1] ex_batch3]"
  let ?outs = "[([[7 :: real], [0]], [[- 1 :: real], [0]]), ([[9]], [[- 1]])]"
  have m1: "meta_micro_batch_size (meta ex_data3) = Some 1"
    and m2: "meta_temperature (meta ex_data3) = Some 1"
    and m3: "meta_use_dynamic_bsz (meta ex_data3) = Some True"
    and m4: "meta_max_token_len (meta ex_data3) = Some 4"
    by (simp_all add: ex_data3_def ex_meta_def)
  have sel: "select [''responses'', ''input_ids'', ''attention_mask'', ''position_ids'']
               (batch ex_data3) = Inr ex_batch3"
    by (simp add: select_def contains_def ex_data3_def ex_batch3_def)
  have plan: "rearrange_micro_batches ex_collab ex_batch3
                (4 * ulysses_sequence_parallel_size ex_cfg) = Inr (?mbs, [[0, 2], [1]])"
    by (simp add: ex_collab_def ex_cfg_def greedy_micro_batches_def getitem_def token_counts_def
        ex_batch3_def upt_rec eval_nat_numeral)
  have f1: "forward_micro_batch ex_collab ex_cfg (actor_module ex_collab False 1)
              (index_select [0, 2] ex_batch3) 1 = Inr ([[7], [0]], [[- 1], [0]])"
    by (simp add: forward_eval index_select_def ex_batch3_def ex_cfg_def ex_collab_def)
  have f2: "forward_micro_batch ex_collab ex_cfg (actor_module ex_collab False 1)
              (index_select [1] ex_batch3) 1 = Inr ([[9]], [[- 1]])"
    by (simp add: forward_eval index_select_def ex_batch3_def ex_cfg_def ex_collab_def)
  have fwd: "forward_all
     (\<lambda>mb. forward_micro_batch ex_collab ex_cfg (actor_module ex_collab False 1) mb 1) ?mbs
     = Inr ?outs"
    by (simp only: forward_all.simps f1 f2 sum.case)
  have ne: "?mbs \<noteq> []" by simp
  have d: "distinct (concat [[0 :: nat, 2], [1]])" by simp
  have s: "set (concat [[0 :: nat, 2], [1]]) = {0..<length (concat [[0 :: nat, 2], [1]])}"
    by (auto simp: eval_nat_numeral)
  have l: "length (concat [[0 :: nat, 2], [1]]) = length (concat (map snd ?outs))" by simp
  have rev: "get_reverse_idx (concat [[0, 2], [1]]) = [0, 2, 1]"
    by (simp add: get_reverse_idx_def upt_rec)
  note T = compute_log_prob_restores_order[OF m1 m2 m3 m4 sel plan fwd ne,
      THEN conjunct2, THEN conjunct1, rule_format, OF d s l, THEN conjunct1]
  then have res: "compute_log_prob ex_collab ex_cfg 1 ex_data3
                  = Inr ([[- 1], [- 1], [0]], [[7], [9], [0]])"
    by (simp add: get_reverse_idx_def upt_rec eval_nat_numeral)
  from m1 m2 m3 m4 sel plan fwd d s rev res show ?thesis by (intro conjI)
qed

subsection \<open>The metrics dictionary\<close>

lemma map_of_dict_set:
  "map_of (dict_set d k v) k' = (if k' = k then Some v else map_of d k')"
  by (induction d k v rule: dict_set.induct) auto


lemma series_of_dict_set_other:
  "k' \<noteq> k \<Longrightarrow> series_of (dict_set d k v) k' = series_of d k'"
  by (simp add: series_of_def map_of_dict_set)


lemma no_scalar_dict_set_other:
  "k' \<noteq> k \<Longrightarrow> no_scalar (dict_set d k v) k' = no_scalar d k'"
  by (simp add: no_scalar_def map_of_dict_set)



subsection \<open>Evaluating the update on the example\<close>

lemmas update_eval = update_policy_def meta_get_def select_keys_of_def select_def contains_def
  split_def split_starts_def td_rows_def mini_batch_step_def split_mini_batch_def
  micro_batch_step_def normal_step_def response_mask_of_def py_slice_from_def kl_term_def
  sft_term_def multi_task_def scale_loss_def tensor_div_def len_data_def zero_grad_def
  optimizer_step_def clip_grad_norm_def isfinite_def record_grad_norm_def Let_def

lemma ex_micro_batches:
  "split_mini_batch ex_collab ex_cfg ex_batch
     = Inr ([td_rows 0 1 ex_batch, td_rows 1 1 ex_batch], 2)"
  by (simp add: split_mini_batch_def split_def split_starts_def ex_cfg_def ex_batch_def upt_rec)

lemma ex_micro_batch_loop:
  "micro_batch_loop ex_collab ex_cfg ''normal'' 1 2 [td_rows 0 1 ex_batch, td_rows 1 1 ex_batch]
     (\<lparr>params = ps, grads = [], stdout = []\<rparr>, [])
     = Inr (\<lparr>params = ps,
              grads = [Backward (td_rows 0 1 ex_batch) (Finite (- 1 / 2)),
                       Backward (td_rows 1 1 ex_batch) (Finite (- 1 / 2))],
              stdout = []\<rparr>,
            [(''actor/entropy_loss'', Series [Finite (6 + ps), Finite (8 + ps)]),
             (''actor/pg_loss'', Series [Finite (- 1), Finite (- 1)]),
             (''actor/pg_clipfrac'', Series [Finite 0, Finite 0]),
             (''actor/ppo_kl'', Series [Finite 0, Finite 0])])"
  by (simp add: update_eval forward_eval ex_batch_def ex_cfg_def ex_collab_def)

subsection \<open>The guarded optimizer step\<close>



lemma ex_first_mini_batch: "td_rows 0 2 ex_batch = ex_batch"
  by (simp add: td_rows_def ex_batch_def)

lemma ex_update_policy:
  "update_policy ex_collab ex_cfg \<lparr>params = 1, grads = [Clip 7], stdout = []\<rparr> ex_data ''normal''
     = Inr (\<lparr>params = 2, grads = [], stdout = []\<rparr>,
            [(''actor/entropy_loss'', Series [Finite 7, Finite 9]),
             (''actor/pg_loss'', Series [Finite (- 1), Finite (- 1)]),
             (''actor/pg_clipfrac'', Series [Finite 0, Finite 0]),
             (''actor/ppo_kl'', Series [Finite 0, Finite 0]),
             (''actor/grad_norm'', Series [Finite 2])])"
proof -
  have ms: "mini_batch_step ex_collab ex_cfg ''normal'' 1
              (\<lparr>params = 1, grads = [Clip 7], stdout = []\<rparr>, []) ex_batch
            = Inr (\<lparr>params = 2,
                     grads = [Backward (td_rows 0 1 ex_batch) (Finite (- 1 / 2)),
                              Backward (td_rows 1 1 ex_batch) (Finite (- 1 / 2)), Clip 1],
                     stdout = []\<rparr>,
                   [(''actor/entropy_loss'', Series [Finite 7, Finite 9]),
                    (''actor/pg_loss'', Series [Finite (- 1), Finite (- 1)]),
                    (''actor/pg_clipfrac'', Series [Finite 0, Finite 0]),
                    (''actor/ppo_kl'', Series [Finite 0, Finite 0]),
                    (''actor/grad_norm'', Series [Finite 2])])"
  proof -
    let ?sc = "\<lparr>params = 1 :: real,
                 grads = [Backward (td_rows 0 1 ex_batch) (Finite (- 1 / 2)),
                          Backward (td_rows 1 1 ex_batch) (Finite (- 1 / 2))],
                 stdout = []\<rparr>"
    let ?ms2 = "[(''actor/entropy_loss'', Series [Finite 7, Finite 9]),
                 (''actor/pg_loss'', Series [Finite (- 1), Finite (- 1)]),
                 (''actor/pg_clipfrac'', Series [Finite 0, Finite 0]),
                 (''actor/ppo_kl'', Series [Finite 0, Finite 0])]"
    have lp: "micro_batch_loop ex_collab ex_cfg ''normal'' 1 2
                [td_rows 0 1 ex_batch, td_rows 1 1 ex_batch]
                (zero_grad \<lparr>params = 1, grads = [Clip 7], stdout = []\<rparr>, [])
              = Inr (?sc, ?ms2)"
      using ex_micro_batch_loop[of 1] by (simp add: zero_grad_def)
    have os: "optimizer_step ex_collab ex_cfg ?sc
              = Inr (Finite 2,
                     \<lparr>params = 2,
                        grads = [Backward (td_rows 0 1 ex_batch) (Finite (- 1 / 2)),
                                 Backward (td_rows 1 1 ex_batch) (Finite (- 1 / 2)), Clip 1],
                        stdout = []\<rparr>)"
      by (simp add: optimizer_step_def clip_grad_norm_def isfinite_def Let_def ex_cfg_def
          ex_collab_def)
    have rc: "record_grad_norm ''normal'' ?ms2 (Finite 2)
              = Inr (?ms2 @ [(''actor/grad_norm'', Series [Finite 2])])"
      by (simp add: record_grad_norm_def)
    show ?thesis
      by (simp only: mini_batch_step_def prod.case ex_micro_batches lp os rc sum.case append.simps)
  qed
  have sel: "select [''responses'', ''input_ids'', ''attention_mask'', ''position_ids'',
                     ''old_log_probs'', ''advantages''] ex_batch = Inr ex_batch"
    by (simp add: select_def contains_def ex_batch_def)
  have keys: "select_keys_of ex_cfg ex_batch ''normal''
              = Inr [''responses'', ''input_ids'', ''attention_mask'', ''position_ids'',
                     ''old_log_probs'', ''advantages'']"
    by (simp add: select_keys_of_def multi_task_def contains_def ex_cfg_def ex_batch_def)
  have sp: "split (ppo_mini_batch_size ex_cfg) ex_batch = Inr [ex_batch]"
    using ex_first_mini_batch
    by (simp add: split_def split_starts_def ex_cfg_def ex_batch_def upt_rec)
  show ?thesis
    by (simp add: update_policy_def meta_get_def ex_data_def ex_meta_def keys sel sp ms
        zero_grad_def)
qed

subsection \<open>Zeroed gradients\<close>

lemma micro_batch_loop_grads:
  "micro_batch_loop ext cfg mode temperature ga mbs (st, ms) = Inr (st2, ms2) \<Longrightarrow>
     params st2 = params st \<and> stdout st2 = stdout st \<and>
     (\<exists>losses. length losses = length mbs \<and>
        grads st2 = grads st @ map (\<lambda>(mb, l). Backward mb l) (zip mbs losses))"
proof (induction mbs arbitrary: st ms)
  case Nil
  then show ?case by simp
next
  case (Cons mb mbs)
  from Cons.prems obtain st1 ms1 where
    s1: "micro_batch_step ext cfg mode temperature ga (st, ms) mb = Inr (st1, ms1)"
    and r: "micro_batch_loop ext cfg mode temperature ga mbs (st1, ms1) = Inr (st2, ms2)"
    by (auto split: sum.splits)
  from s1 obtain loss where st1: "st1 = st\<lparr>grads := grads st @ [Backward mb loss]\<rparr>"
    by (auto simp: micro_batch_step_def split: sum.splits prod.splits)
  from Cons.IH[OF r] obtain losses where
    p: "params st2 = params st1" and o: "stdout st2 = stdout st1"
    and l: "length losses = length mbs"
    and g: "grads st2 = grads st1 @ map (\<lambda>(mb, l). Backward mb l) (zip mbs losses)"
    by blast
  have "length (loss # losses) = length (mb # mbs) \<and>
        grads st2 = grads st @ map (\<lambda>(mb, l). Backward mb l) (zip (mb # mbs) (loss # losses))"
    using l g st1 by simp
  with p o st1 show ?case by (metis actor_state.select_convs(1,3) actor_state.surjective
        actor_state.update_convs(2))
qed

text \<open>
  Claim C10.  Whatever the mode and whether or not an optimizer step was skipped, the
  state that \<^verbatim>\<open>update_policy\<close> returns with its metrics holds zero gradients.  Each
  mini-batch starts from zeroed gradients: what it does is independent of the gradient it
  finds, and after its micro-batches the accumulated gradient consists of exactly one
  backward pass per micro-batch of this mini-batch.
\<close>

theorem update_policy_zero_grad:
  "(\<forall>st' ms. update_policy ext cfg st data mode = Inr (st', ms) \<longrightarrow> grads st' = []) \<and>
   (\<forall>g. mini_batch_step ext cfg mode temperature (st\<lparr>grads := g\<rparr>, ms_in) mini_batch
          = mini_batch_step ext cfg mode temperature (st, ms_in) mini_batch) \<and>
   (\<forall>mbs ga st2 ms2.
      split_mini_batch ext cfg mini_batch = Inr (mbs, ga) \<longrightarrow>
      micro_batch_loop ext cfg mode temperature ga mbs (zero_grad st, ms_in) = Inr (st2, ms2) \<longrightarrow>
      (\<exists>losses. length losses = length mbs \<and>
         grads st2 = map (\<lambda>(mb, l). Backward mb l) (zip mbs losses)))"
proof (intro conjI allI impI)
  fix st' ms
  assume "update_policy ext cfg st data mode = Inr (st', ms)"
  then show "grads st' = []"
    by (auto simp: update_policy_def zero_grad_def split: sum.splits prod.splits)
next
  fix g
  show "mini_batch_step ext cfg mode temperature (st\<lparr>grads := g\<rparr>, ms_in) mini_batch
          = mini_batch_step ext cfg mode temperature (st, ms_in) mini_batch"
    by (simp add: mini_batch_step_def zero_grad_def cong: sum.case_cong prod.case_cong)
next
  fix mbs ga st2 ms2
  assume "split_mini_batch ext cfg mini_batch = Inr (mbs, ga)"
    and "micro_batch_loop ext cfg mode temperature ga mbs (zero_grad st, ms_in) = Inr (st2, ms2)"
  from micro_batch_loop_grads[OF this(2)]
  show "\<exists>losses. length losses = length mbs \<and>
         grads st2 = map (\<lambda>(mb, l). Backward mb l) (zip mbs losses)"
    by (simp add: zero_grad_def)
qed

theorem update_policy_zero_grad_witness:
  "update_policy ex_collab ex_cfg \<lparr>params = 1, grads = [Clip 7], stdout = []\<rparr> ex_data ''normal''
     = Inr (\<lparr>params = 2, grads = [], stdout = []\<rparr>,
            [(''actor/entropy_loss'', Series [Finite 7, Finite 9]),
             (''actor/pg_loss'', Series [Finite (- 1), Finite (- 1)]),
             (''actor/pg_clipfrac'', Series [Finite 0, Finite 0]),
             (''actor/ppo_kl'', Series [Finite 0, Finite 0]),
             (''actor/grad_norm'', Series [Finite 2])]) \<and>
   grads \<lparr>params = 2 :: real, grads = [], stdout = []\<rparr> = [] \<and>
   split_mini_batch ex_collab ex_cfg ex_batch
     = Inr ([td_rows 0 1 ex_batch, td_rows 1 1 ex_batch], 2) \<and>
   (\<exists>st2 ms2 losses.
      micro_batch_loop ex_collab ex_cfg ''normal'' 1 2
        [td_rows 0 1 ex_batch, td_rows 1 1 ex_batch]
        (zero_grad \<lparr>params = 1, grads = [Clip 7], stdout = []\<rparr>, []) = Inr (st2, ms2) \<and>
      length losses = 2 \<and>
      grads st2 = map (\<lambda>(mb, l). Backward mb l)
                    (zip [td_rows 0 1 ex_batch, td_rows 1 1 ex_batch] losses))"
proof -
  let ?st = "\<lparr>params = 1 :: real, grads = [Clip 7], stdout = []\<rparr>"
  note T = update_policy_zero_grad[where ext = ex_collab and cfg = ex_cfg and st = ?st
      and data = ex_data and mode = "''normal''" and mini_batch = ex_batch and temperature = 1
      and ms_in = "[]"]
  have a: "grads \<lparr>params = 2 :: real, grads = [], stdout = []\<rparr> = []"
    by (rule T[THEN conjunct1, rule_format, OF ex_update_policy])
  have lp: "micro_batch_loop ex_collab ex_cfg ''normal'' 1 2
              [td_rows 0 1 ex_batch, td_rows 1 1 ex_batch] (zero_grad ?st, [])
            = Inr (\<lparr>params = 1,
                     grads = [Backward (td_rows 0 1 ex_batch) (Finite (- 1 / 2)),
                              Backward (td_rows 1 1 ex_batch) (Finite (- 1 / 2))],
                     stdout = []\<rparr>,
                   [(''actor/entropy_loss'', Series [Finite 7, Finite 9]),
                    (''actor/pg_loss'', Series [Finite (- 1), Finite (- 1)]),
                    (''actor/pg_clipfrac'', Series [Finite 0, Finite 0]),
                    (''actor/ppo_kl'', Series [Finite 0, Finite 0])])"
    using ex_micro_batch_loop[of 1] by (simp add: zero_grad_def)
  let ?sc = "\<lparr>params = 1 :: real,
               grads = [Backward (td_rows 0 1 ex_batch) (Finite (- 1 / 2)),
                        Backward (td_rows 1 1 ex_batch) (Finite (- 1 / 2))],
               stdout = []\<rparr>"
  let ?ms2 = "[(''actor/entropy_loss'', Series [Finite 7, Finite 9]),
               (''actor/pg_loss'', Series [Finite (- 1), Finite (- 1)]),
               (''actor/pg_clipfrac'', Series [Finite 0, Finite 0]),
               (''actor/ppo_kl'', Series [Finite 0, Finite 0])]"
  from T[THEN conjunct2, THEN conjunct2, rule_format, OF ex_micro_batches lp]
  obtain losses where l: "length losses = length [td_rows 0 1 ex_batch, td_rows 1 1 ex_batch]"
    and g: "grads ?sc = map (\<lambda>(mb, l). Backward mb l)
                          (zip [td_rows 0 1 ex_batch, td_rows 1 1 ex_batch] losses)"
    by (elim exE conjE)
  have l2: "length losses = 2" using l by simp
  have "micro_batch_loop ex_collab ex_cfg ''normal'' 1 2
          [td_rows 0 1 ex_batch, td_rows 1 1 ex_batch] (zero_grad ?st, []) = Inr (?sc, ?ms2) \<and>
        length losses = 2 \<and>
        grads ?sc = map (\<lambda>(mb, l). Backward mb l)
                      (zip [td_rows 0 1 ex_batch, td_rows 1 1 ex_batch] losses)"
    using lp l2 g by (intro conjI)
  then have "\<exists>st2 ms2 losses.
      micro_batch_loop ex_collab ex_cfg ''normal'' 1 2
        [td_rows 0 1 ex_batch, td_rows 1 1 ex_batch] (zero_grad ?st, []) = Inr (st2, ms2) \<and>
      length losses = 2 \<and>
      grads st2 = map (\<lambda>(mb, l). Backward mb l)
                    (zip [td_rows 0 1 ex_batch, td_rows 1 1 ex_batch] losses)"
    by (intro exI[of _ ?sc] exI[of _ ?ms2] exI[of _ losses])
  with ex_update_policy a ex_micro_batches show ?thesis by (intro conjI)
qed

subsection \<open>The loss given to the backward pass\<close>

lemma backward_loss_scale:
  assumes "(if mode = ''normal''
            then normal_step ext cfg (actor_module ext True (params st)) temperature ms data
            else if mode = ''sft_only'' then sft_only_step cfg ms data
            else Inl NotImplementedError) = Inr (policy_loss, ms', data')"
    and "use_dynamic_bsz cfg \<longrightarrow> ppo_mini_batch_size cfg \<noteq> 0"
  shows "micro_batch_step ext cfg mode temperature ga (st, ms) data
           = Inr (st\<lparr>grads := grads st
                      @ [Backward data
                           (if use_dynamic_bsz cfg
                            then Finite (policy_loss
                                         * (real (if mode = ''normal'' then 4 else batch_size data)
                                            / real (ppo_mini_batch_size cfg)))
                            else tensor_div policy_loss ga)]\<rparr>, ms')"
proof -
  have len: "len_data data' = (if mode = ''normal'' then 4 else batch_size data)"
    using assms(1)
    by (auto simp: normal_step_def sft_only_step_def len_data_def Let_def
        split: if_splits sum.splits prod.splits)
  show ?thesis
    using assms by (auto simp: micro_batch_step_def scale_loss_def len)
qed

text \<open>
  Claim C4 at a failing input: mode \<^verbatim>\<open>normal\<close>, dynamic batching, a mini-batch
  size of 8 and a micro-batch of 2 examples with policy loss -2.  The claim gives the
  backward pass \<open>-2 * (2 / 8)\<close>; the code has rebound \<^verbatim>\<open>data\<close> to the dictionary
  of four metrics (line 569) before line 597 takes \<^verbatim>\<open>len(data)\<close>, and passes
  \<open>-2 * (4 / 8) = -1\<close>.
\<close>

theorem dynamic_loss_scale_normal_mode:
  "split_mini_batch ex_collab
     (ex_cfg\<lparr>use_dynamic_bsz := True, ppo_mini_batch_size := 8, ppo_max_token_len_per_gpu := 8\<rparr>)
     ex_batch = Inr ([index_select [0, 1] ex_batch], 0) \<and>
   batch_size (index_select [0, 1] ex_batch) = 2 \<and>
   normal_step ex_collab
     (ex_cfg\<lparr>use_dynamic_bsz := True, ppo_mini_batch_size := 8, ppo_max_token_len_per_gpu := 8\<rparr>)
     (actor_module ex_collab True 1) 1 [] (index_select [0, 1] ex_batch)
     = Inr (- 2,
            [(''actor/entropy_loss'', Series [Finite 16]),
             (''actor/pg_loss'', Series [Finite (- 2)]),
             (''actor/pg_clipfrac'', Series [Finite 0]),
             (''actor/ppo_kl'', Series [Finite 0])],
            DataDict [(''actor/entropy_loss'', Finite 16),
                      (''actor/pg_loss'', Finite (- 2)),
                      (''actor/pg_clipfrac'', Finite 0),
                      (''actor/ppo_kl'', Finite 0)]) \<and>
   micro_batch_step ex_collab
     (ex_cfg\<lparr>use_dynamic_bsz := True, ppo_mini_batch_size := 8, ppo_max_token_len_per_gpu := 8\<rparr>)
     ''normal'' 1 0 (\<lparr>params = 1, grads = [], stdout = []\<rparr>, []) (index_select [0, 1] ex_batch)
     = Inr (\<lparr>params = 1,
              grads = [Backward (index_select [0, 1] ex_batch) (Finite (- 1))],
              stdout = []\<rparr>,
            [(''actor/entropy_loss'', Series [Finite 16]),
             (''actor/pg_loss'', Series [Finite (- 2)]),
             (''actor/pg_clipfrac'', Series [Finite 0]),
             (''actor/ppo_kl'', Series [Finite 0])]) \<and>
   (- 2 :: real) * (2 / 8) \<noteq> - 1"
proof -
  let ?cfg = "ex_cfg\<lparr>use_dynamic_bsz := True, ppo_mini_batch_size := 8,
                     ppo_max_token_len_per_gpu := 8\<rparr>"
  let ?mb = "index_select [0, 1] ex_batch"
  let ?ms = "[(''actor/entropy_loss'', Series [Finite 16]),
             (''actor/pg_loss'', Series [Finite (- 2)]),
             (''actor/pg_clipfrac'', Series [Finite 0]),
             (''actor/ppo_kl'', Series [Finite 0])]"
  have a: "split_mini_batch ex_collab ?cfg ex_batch = Inr ([?mb], 0)"
    by (simp add: split_mini_batch_def ex_collab_def ex_cfg_def greedy_micro_batches_def
        getitem_def token_counts_def ex_batch_def upt_rec)
  have b: "batch_size ?mb = 2" by (simp add: index_select_def)
  have c: "normal_step ex_collab ?cfg (actor_module ex_collab True 1) 1 [] ?mb
     = Inr (- 2, ?ms,
            DataDict [(''actor/entropy_loss'', Finite 16),
                      (''actor/pg_loss'', Finite (- 2)),
                      (''actor/pg_clipfrac'', Finite 0),
                      (''actor/ppo_kl'', Finite 0)])"
    by (simp add: update_eval forward_eval index_select_def ex_batch_def ex_cfg_def ex_collab_def)
  have d: "micro_batch_step ex_collab ?cfg ''normal'' 1 0
             (\<lparr>params = 1, grads = [], stdout = []\<rparr>, []) ?mb
           = Inr (\<lparr>params = 1, grads = [Backward ?mb (Finite (- 1))], stdout = []\<rparr>, ?ms)"
    using c by (simp add: micro_batch_step_def scale_loss_def len_data_def ex_cfg_def)
  have e: "(- 2 :: real) * (2 / 8) \<noteq> - 1" by simp
  from a b c d e show ?thesis by (intro conjI)
qed

subsection \<open>What the metrics accumulate\<close>
















subsection \<open>The gate of the response-mask override\<close>











subsection \<open>The example with losses that read the mask\<close>






















end
